theory Spec2Isabelle
  imports Main "HOL-Library.AList" "HOL-Library.Log_Nat" "HOL-Library.Option_ord"
    "HOL-Library.Char_ord" "HOL-Library.List_Lexorder"
begin

section \<open>Common vocabulary of the controllers\<close>

text \<open>
  Object ids are natural numbers; an id and its string form (\<open>toString()\<close>, \<open>req.user.id\<close>)
  are the same value. A point in time (\<open>new Date()\<close>, a stored \<open>Date\<close>) is a number of
  milliseconds. The clock is an argument of every operation that reads it.
\<close>

type_synonym oid = nat
type_synonym time = int

datatype role = Admin | Teacher | Parent | Staff | Finance

text \<open>
  Modelled from the spec: models/User.js is not among the sources. The actor is the
  authenticated user that \<open>protect\<close> (middleware/auth.js) leaves in \<open>req.user\<close>, with
  the two properties the handlers read: its role, and its id, which the message controller
  reads as \<open>req.user.userId\<close> and the other controllers as \<open>req.user.id\<close>.
\<close>

record actor =
  userId :: oid
  role :: role

text \<open>
  What a handler sends: \<open>res.json(body)\<close> (status 200 or 201) or
  \<open>res.status(code).json({message})\<close> with the handler's own text. Where the text of
  a 500 answer is the database's error message, which the sources do not fix, it is left
  empty.
\<close>

datatype 'a reply = Ok 'a | Fail nat string

definition succeeded :: "'a reply \<Rightarrow> bool" where
  "succeeded r = (case r of Ok x \<Rightarrow> True | Fail code msg \<Rightarrow> False)"

text \<open>
  \<open>.skip(s).limit(l)\<close> of a query. The database refuses a negative skip (the handler's
  \<open>catch\<close> answers 500); a limit of zero means no limit and a negative limit counts as
  its absolute value.
\<close>

definition paginate :: "int \<Rightarrow> int \<Rightarrow> 'a list \<Rightarrow> 'a list option" where
  "paginate skip limit xs =
     (if skip < 0 then None
      else Some (let ys = drop (nat skip) xs
                 in if limit = 0 then ys else take (nat \<bar>limit\<bar>) ys))"

section \<open>Messages (the message controller, src/unnamed/part_003; the Message model, src/unnamed/part_005)\<close>

record message =
  mid :: oid
  sender :: oid
  recipient :: oid
  child :: oid
  isRead :: bool
  readAt :: "time option"
  createdAt :: time

text \<open>\<open>Message.findById(id)\<close> over the stored collection.\<close>

definition findMessageById :: "oid \<Rightarrow> message list \<Rightarrow> message option" where
  "findMessageById i ms = List.find (\<lambda>m. mid m = i) ms"

text \<open>
  The schema's \<open>pre('save')\<close> hook: \<open>old\<close> is the document as loaded, \<open>m\<close> the document
  being saved; \<open>isModified('isRead')\<close> holds when the flag differs from the loaded one.
\<close>

definition preSave :: "time \<Rightarrow> message \<Rightarrow> message \<Rightarrow> message" where
  "preSave now old m =
     (if isRead m \<noteq> isRead old \<and> isRead m \<and> readAt m = None
      then m\<lparr>readAt := Some now\<rparr> else m)"

definition saveMessage :: "time \<Rightarrow> message \<Rightarrow> message list \<Rightarrow> message list" where
  "saveMessage now m ms = map (\<lambda>x. if mid x = mid m then preSave now x m else x) ms"

text \<open>\<open>exports.markAsRead\<close>: the reply and the collection afterwards.\<close>

definition markAsRead :: "time \<Rightarrow> actor \<Rightarrow> oid \<Rightarrow> message list \<Rightarrow> bool reply \<times> message list" where
  "markAsRead now u i ms =
     (case findMessageById i ms of
        None \<Rightarrow> (Fail 404 ''Message not found'', ms)
      | Some m \<Rightarrow>
          if recipient m \<noteq> userId u
          then (Fail 403 ''Not authorized to mark this message as read'', ms)
          else (Ok True, saveMessage now (m\<lparr>isRead := True, readAt := Some now\<rparr>) ms))"

text \<open>
  \<open>exports.getMessageById\<close>: any authenticated actor gets the message; it is marked read
  on the way when the actor is its recipient and it is still unread. (The \<open>populate\<close>
  calls, which replace ids by the documents they name in the output, are left out.)
\<close>

definition getMessageById :: "time \<Rightarrow> actor \<Rightarrow> oid \<Rightarrow> message list \<Rightarrow> message reply \<times> message list" where
  "getMessageById now u i ms =
     (case findMessageById i ms of
        None \<Rightarrow> (Fail 404 ''Message not found'', ms)
      | Some m \<Rightarrow>
          if userId u = recipient m \<and> \<not> isRead m
          then (let m' = m\<lparr>isRead := True, readAt := Some now\<rparr>
                in (Ok (preSave now m m'), saveMessage now m' ms))
          else (Ok m, ms))"

text \<open>
  \<open>exports.getMessagesByChild\<close>: the page of messages about a child, newest first, and
  the total count. The query is \<open>{ child: childId }\<close> alone.
\<close>

definition getMessagesByChild :: "actor \<Rightarrow> oid \<Rightarrow> int \<Rightarrow> int \<Rightarrow> message list \<Rightarrow> (message list \<times> nat) reply" where
  "getMessagesByChild u childId page limit ms =
     (let found = filter (\<lambda>m. child m = childId) ms
      in case paginate ((page - 1) * limit) (limit * 1) (rev (sort_key createdAt found)) of
           None \<Rightarrow> Fail 500 []
         | Some msgs \<Rightarrow> Ok (msgs, length found))"

text \<open>
  \<open>exports.getConversation\<close>, the sibling listing: the same query with
  \<open>$or: [{sender: userId}, {recipient: userId}]\<close>.
\<close>

definition getConversation :: "actor \<Rightarrow> oid \<Rightarrow> int \<Rightarrow> int \<Rightarrow> message list \<Rightarrow> (message list \<times> nat) reply" where
  "getConversation u childId page limit ms =
     (let found = filter (\<lambda>m. child m = childId \<and> (sender m = userId u \<or> recipient m = userId u)) ms
      in case paginate ((page - 1) * limit) (limit * 1) (rev (sort_key createdAt found)) of
           None \<Rightarrow> Fail 500 []
         | Some msgs \<Rightarrow> Ok (msgs, length found))"

section \<open>Documents, update documents and schemas\<close>

text \<open>
  A stored document and a request body are JSON objects: lists of fields, read by name
  with \<open>map_of\<close>. Ids and dates are values of their own, and the numbers of these
  documents are integers. A scalar of a request body is written as what it denotes at the
  path where it lands: \<open>JId\<close> for the string that Mongoose reads as an id at an
  \<open>ObjectId\<close> path, \<open>JDate\<close> for a date string at a \<open>Date\<close> path, \<open>JNum\<close> for a number or
  a numeric string at a \<open>Number\<close> path; any other string is \<open>JStr\<close>. The fields that
  Mongoose keeps on its own (\<open>_id\<close> of sub-documents, \<open>__v\<close>, and \<open>createdAt\<close> and
  \<open>updatedAt\<close> of \<open>timestamps: true\<close>) are not part of these documents.
\<close>

datatype json =
    JNull
  | JBool bool
  | JNum int
  | JStr string
  | JId oid
  | JDate time
  | JArr "json list"
  | JObj "(string \<times> json) list"

type_synonym doc = "(string \<times> json) list"

text \<open>A collection: the stored documents by \<open>_id\<close>, in storage order.\<close>

type_synonym collection = "(oid \<times> doc) list"

text \<open>JavaScript truthiness of a field read (\<open>None\<close> is \<open>undefined\<close>).\<close>

fun truthy :: "json option \<Rightarrow> bool" where
  "truthy None = False"
| "truthy (Some JNull) = False"
| "truthy (Some (JBool b)) = b"
| "truthy (Some (JNum n)) = (n \<noteq> 0)"
| "truthy (Some (JStr s)) = (s \<noteq> [])"
| "truthy (Some _) = True"

text \<open>
  \<open>arr.includes(id)\<close> on an array field of ids (a single id stored at an array path is
  hydrated as the array of that id).
\<close>

fun includesId :: "json option \<Rightarrow> oid \<Rightarrow> bool" where
  "includesId (Some (JArr xs)) i = (JId i \<in> set xs)"
| "includesId (Some (JId k)) i = (k = i)"
| "includesId _ i = False"

text \<open>The ids held by an array field (\<open>{ $in: child.parents }\<close>).\<close>

fun idOf :: "json \<Rightarrow> oid list" where
  "idOf (JId i) = [i]"
| "idOf _ = []"

fun idsOf :: "json option \<Rightarrow> oid list" where
  "idsOf (Some (JArr xs)) = concat (map idOf xs)"
| "idsOf _ = []"

subsection \<open>Casting and validation of a value by a schema type\<close>

text \<open>
  What Mongoose does with a value that is written to a path, by the type and the options
  the schema declares for the path: the value that is stored, or \<open>None\<close> for a
  \<open>CastError\<close> or a \<open>ValidationError\<close>. A \<open>null\<close> is stored as it is (the \<open>required\<close>
  validator apart, see \<open>castRequired\<close>).
\<close>

text \<open>\<open>String.prototype.trim\<close>, on the ASCII white space.\<close>

definition isSpace :: "char \<Rightarrow> bool" where
  "isSpace c = (c \<in> set [CHR '' '', CHR 0x09, CHR 0x0A, CHR 0x0B, CHR 0x0C, CHR 0x0D])"

definition trim :: "string \<Rightarrow> string" where
  "trim s = rev (dropWhile isSpace (rev (dropWhile isSpace s)))"

text \<open>\<open>String(n)\<close> of an integer.\<close>

fun digitsOf :: "nat \<Rightarrow> string" where
  "digitsOf n =
     (if n < 10 then [''0123456789'' ! n]
      else digitsOf (n div 10) @ [''0123456789'' ! (n mod 10)])"

declare digitsOf.simps [simp del]

definition numberString :: "int \<Rightarrow> string" where
  "numberString n = (if n < 0 then CHR ''-'' # digitsOf (nat (- n)) else digitsOf (nat n))"

text \<open>
  The options of a \<open>String\<close> path: \<open>trim\<close>, \<open>maxlength\<close>, \<open>enum\<close> and \<open>match\<close> (the
  compiled regular expression, as the test it makes on a string). The \<open>match\<close> validator
  lets the empty string pass.
\<close>

record stringOpts =
  s_trim :: bool
  s_maxlength :: "nat option"
  s_enum :: "string list option"
  s_match :: "(string \<Rightarrow> bool) option"

definition plain :: stringOpts where
  "plain = \<lparr>s_trim = False, s_maxlength = None, s_enum = None, s_match = None\<rparr>"

definition checkString :: "stringOpts \<Rightarrow> string \<Rightarrow> json option" where
  "checkString opts s =
     (let t = (if s_trim opts then trim s else s)
      in if (case s_maxlength opts of None \<Rightarrow> True | Some n \<Rightarrow> length t \<le> n) \<and>
            (case s_enum opts of None \<Rightarrow> True | Some vs \<Rightarrow> t \<in> set vs) \<and>
            (case s_match opts of None \<Rightarrow> True | Some p \<Rightarrow> t = [] \<or> p t)
         then Some (JStr t) else None)"

text \<open>
  \<open>type: String\<close>: a string, or the string form of a number or a boolean; an array or an
  object is a cast error.
\<close>

definition castString :: "stringOpts \<Rightarrow> json \<Rightarrow> json option" where
  "castString opts v =
     (case v of
        JNull \<Rightarrow> Some JNull
      | JStr s \<Rightarrow> checkString opts s
      | JNum n \<Rightarrow> checkString opts (numberString n)
      | JBool b \<Rightarrow> checkString opts (if b then ''true'' else ''false'')
      | _ \<Rightarrow> None)"

text \<open>
  \<open>type: Number\<close> with an optional \<open>min\<close>: a number, a boolean as 1 or 0, the empty
  string as \<open>null\<close>; a string that is no number is a cast error.
\<close>

definition checkNumber :: "int option \<Rightarrow> int \<Rightarrow> json option" where
  "checkNumber minimum n =
     (if (case minimum of None \<Rightarrow> True | Some m \<Rightarrow> m \<le> n) then Some (JNum n) else None)"

definition castNumber :: "int option \<Rightarrow> json \<Rightarrow> json option" where
  "castNumber minimum v =
     (case v of
        JNull \<Rightarrow> Some JNull
      | JNum n \<Rightarrow> checkNumber minimum n
      | JBool b \<Rightarrow> checkNumber minimum (if b then 1 else 0)
      | JStr s \<Rightarrow> (if s = [] then Some JNull else None)
      | _ \<Rightarrow> None)"

text \<open>\<open>type: Boolean\<close>: the values that Mongoose converts to \<open>true\<close> and to \<open>false\<close>.\<close>

definition castBoolean :: "json \<Rightarrow> json option" where
  "castBoolean v =
     (if v = JNull then Some JNull
      else if v \<in> set [JBool True, JStr ''true'', JNum 1, JStr ''1'', JStr ''yes'']
        then Some (JBool True)
      else if v \<in> set [JBool False, JStr ''false'', JNum 0, JStr ''0'', JStr ''no'']
        then Some (JBool False)
      else None)"

text \<open>\<open>type: Date\<close>: a date, a number of milliseconds, the empty string as \<open>null\<close>.\<close>

definition castDate :: "json \<Rightarrow> json option" where
  "castDate v =
     (case v of
        JNull \<Rightarrow> Some JNull
      | JDate t \<Rightarrow> Some (JDate t)
      | JNum n \<Rightarrow> Some (JDate n)
      | JStr s \<Rightarrow> (if s = [] then Some JNull else None)
      | _ \<Rightarrow> None)"

text \<open>\<open>type: ObjectId\<close>.\<close>

definition castObjectId :: "json \<Rightarrow> json option" where
  "castObjectId v = (case v of JNull \<Rightarrow> Some JNull | JId k \<Rightarrow> Some (JId k) | _ \<Rightarrow> None)"

text \<open>
  The \<open>required\<close> validator on top of a cast: \<open>null\<close> and the empty string are refused.
\<close>

definition present :: "json \<Rightarrow> bool" where
  "present v = (v \<noteq> JNull \<and> v \<noteq> JStr [])"

definition castRequired :: "bool \<Rightarrow> (json \<Rightarrow> json option) \<Rightarrow> json \<Rightarrow> json option" where
  "castRequired req c v =
     (case c v of None \<Rightarrow> None | Some w \<Rightarrow> if req \<and> \<not> present w then None else Some w)"

text \<open>
  An array path \<open>[T]\<close>: every element is cast by \<open>T\<close>; a value that is no array is cast
  as the array of that one value.
\<close>

definition castArray :: "(json \<Rightarrow> json option) \<Rightarrow> json \<Rightarrow> json option" where
  "castArray elem v =
     (case v of
        JNull \<Rightarrow> Some JNull
      | JArr xs \<Rightarrow> map_option JArr (those (map elem xs))
      | _ \<Rightarrow> map_option (\<lambda>w. JArr [w]) (elem v))"

text \<open>
  A schema is a list of paths, each with its cast and its \<open>required\<close> flag. A nested
  object and a sub-document are cast by their own list of paths: a field that is no path
  is dropped (strict mode), every field is cast, and a required path must be there.
\<close>

type_synonym pathSpec = "string \<times> (json \<Rightarrow> json option) \<times> bool"

definition castDoc :: "pathSpec list \<Rightarrow> json \<Rightarrow> json option" where
  "castDoc specs v =
     (case v of
        JNull \<Rightarrow> Some JNull
      | JObj kvs \<Rightarrow>
          (let cs = List.map_filter
                      (\<lambda>f. case map_of kvs (fst f) of
                              None \<Rightarrow> (if snd (snd f) then Some (fst f, None) else None)
                            | Some x \<Rightarrow> Some (fst f, castRequired (snd (snd f)) (fst (snd f)) x))
                      specs
           in if list_all (\<lambda>pc. snd pc \<noteq> None) cs
              then Some (JObj (map (\<lambda>pc. (fst pc, the (snd pc))) cs)) else None)
      | _ \<Rightarrow> None)"

subsection \<open>Schemas and writes\<close>

text \<open>
  What a Mongoose schema contributes to a write: its top-level paths (strict mode drops
  every other field), the paths that are required, the defaults, and the cast of each path
  (with its setters and validators: the value that is stored, or \<open>None\<close> when the value is
  refused).
\<close>

record schema =
  paths :: "string list"
  required :: "string list"
  defaults :: doc
  cast :: "string \<Rightarrow> json \<Rightarrow> json option"

text \<open>\<open>new mongoose.Schema({...})\<close> from the list of the top-level paths and the defaults.\<close>

definition mkSchema :: "pathSpec list \<Rightarrow> doc \<Rightarrow> schema" where
  "mkSchema specs dflts =
     \<lparr>paths = map fst specs,
      required = map fst (filter (\<lambda>f. snd (snd f)) specs),
      defaults = dflts,
      cast = (\<lambda>p v. case map_of specs p of None \<Rightarrow> Some v | Some cr \<Rightarrow> fst cr v)\<rparr>"

text \<open>The value that a write of \<open>v\<close> to the path \<open>p\<close> stores.\<close>

definition castPath :: "schema \<Rightarrow> string \<Rightarrow> json \<Rightarrow> json option" where
  "castPath sch p v = castRequired (p \<in> set (required sch)) (cast sch p) v"

text \<open>A key of an update document that names an update operator.\<close>

fun isOperator :: "string \<Rightarrow> bool" where
  "isOperator [] = False"
| "isOperator (c # cs) = (c = CHR ''$'')"

text \<open>
  Mongoose reads an update document so: every top-level key that is not an operator is a
  set operation, and the fields of a \<open>$set\<close> operator are set operations too.
\<close>

definition setOperations :: "doc \<Rightarrow> doc" where
  "setOperations upd =
     filter (\<lambda>kv. \<not> isOperator (fst kv)) upd @
     (case map_of upd ''$set'' of Some (JObj fs) \<Rightarrow> fs | _ \<Rightarrow> [])"

text \<open>
  \<open>Model.findByIdAndUpdate(id, upd, {new: true, runValidators: true})\<close> on the document
  found: the set operations on paths of the schema are cast, validated and merged into the
  document; \<open>None\<close> is the rejected promise (a validation or cast error). An update
  document that carries another operator (\<open>$unset\<close>, \<open>$inc\<close>, \<open>$push\<close>, ...) is the
  database's to interpret: its outcome is \<open>ops upd d\<close>, where the argument \<open>ops\<close> stands
  for what Mongoose and the database do with such an update.
\<close>

definition applyUpdate :: "(doc \<Rightarrow> doc \<Rightarrow> doc option) \<Rightarrow> schema \<Rightarrow> doc \<Rightarrow> doc \<Rightarrow> doc option" where
  "applyUpdate ops sch upd d =
     (if list_all (\<lambda>kv. fst kv = ''$set'' \<or> \<not> isOperator (fst kv)) upd
      then (let sets = filter (\<lambda>kv. fst kv \<in> set (paths sch)) (setOperations upd);
                cs = map (\<lambda>kv. (fst kv, castPath sch (fst kv) (snd kv))) sets
            in if list_all (\<lambda>kc. snd kc \<noteq> None) cs
               then Some (AList.merge d (map (\<lambda>kc. (fst kc, the (snd kc))) cs)) else None)
      else ops upd d)"

text \<open>
  \<open>Model.create(input)\<close>: the fields on paths of the schema are cast and laid over the
  defaults; every required path must hold a value. The id is the one of the input when it
  holds one, else the fresh id \<open>newId\<close> of the driver; an id that is taken is a
  duplicate-key error. (A default stands for a path that the input leaves out; the
  defaults inside a nested object that the input gives in part are not added.)
\<close>

definition createDoc :: "schema \<Rightarrow> oid \<Rightarrow> doc \<Rightarrow> collection \<Rightarrow> (oid \<times> doc) option" where
  "createDoc sch newId input coll =
     (let cs = map (\<lambda>kv. (fst kv, cast sch (fst kv) (snd kv)))
                 (filter (\<lambda>kv. fst kv \<in> set (paths sch)) input);
          d = AList.merge (defaults sch) (map (\<lambda>kc. (fst kc, the (snd kc))) cs);
          i = (case map_of input ''_id'' of Some (JId k) \<Rightarrow> k | _ \<Rightarrow> newId)
      in if list_all (\<lambda>kc. snd kc \<noteq> None) cs
            \<and> list_all (\<lambda>p. case map_of d p of None \<Rightarrow> False | Some w \<Rightarrow> present w) (required sch)
            \<and> map_of coll i = None
         then Some (i, d) else None)"

section \<open>Activities (the activity controller, src/unnamed/part_004)\<close>




section \<open>Finance transactions: update (the finance controller, src/unnamed/part_002)\<close>

text \<open>
  The schema of the Finance model (the \<open>financeSchema\<close> that follows the Activity model
  in src/backend/models/Activity.js, the only \<open>mongoose.model('Finance', ...)\<close> of the
  sources). The \<open>status\<close> enum is \<open>pending, completed, cancelled, refunded\<close>. The paths
  whose \<open>required\<close> is a function of the document (\<open>child\<close>, \<open>parent\<close>, \<open>employee\<close>,
  \<open>recurringFrequency\<close>, \<open>nextDueDate\<close>) are not required in an update, where that
  function has no document to read; the default of \<open>transactionDate\<close>, the clock, is of
  use to \<open>create\<close> only and left out.
\<close>

definition financeCategories :: "string list" where
  "financeCategories =
     [''tuition_fees'', ''registration_fees'', ''late_fees'', ''activity_fees'', ''donations'',
      ''grants'', ''other_income'', ''salaries'', ''utilities'', ''supplies'', ''food'',
      ''maintenance'', ''insurance'', ''rent'', ''equipment'', ''training'', ''other_expense'']"

definition financeFields :: "pathSpec list" where
  "financeFields =
     [(''transactionType'', castString (plain\<lparr>s_enum := Some [''income'', ''expense'']\<rparr>), True),
      (''category'', castString (plain\<lparr>s_enum := Some financeCategories\<rparr>), True),
      (''amount'', castNumber (Some 0), True),
      (''description'', castString (plain\<lparr>s_trim := True, s_maxlength := Some 500\<rparr>), True),
      (''transactionDate'', castDate, True),
      (''paymentMethod'',
         castString (plain\<lparr>s_enum := Some [''cash'', ''check'', ''credit_card'', ''debit_card'',
                                           ''bank_transfer'', ''online_payment'']\<rparr>), True),
      (''child'', castObjectId, False),
      (''parent'', castObjectId, False),
      (''vendor'', castDoc [(''name'', castString plain, False), (''contact'', castString plain, False),
                          (''address'', castString plain, False)], False),
      (''employee'', castObjectId, False),
      (''invoiceNumber'', castString (plain\<lparr>s_trim := True\<rparr>), False),
      (''receiptNumber'', castString (plain\<lparr>s_trim := True\<rparr>), False),
      (''status'',
         castString (plain\<lparr>s_enum := Some [''pending'', ''completed'', ''cancelled'', ''refunded'']\<rparr>),
         False),
      (''notes'', castString (plain\<lparr>s_trim := True, s_maxlength := Some 1000\<rparr>), False),
      (''isRecurring'', castBoolean, False),
      (''recurringFrequency'',
         castString (plain\<lparr>s_enum := Some [''weekly'', ''monthly'', ''quarterly'', ''yearly'']\<rparr>), False),
      (''nextDueDate'', castDate, False),
      (''createdBy'', castObjectId, True),
      (''approvedBy'', castObjectId, False),
      (''approvedAt'', castDate, False)]"

definition financeSchema :: schema where
  "financeSchema =
     mkSchema financeFields [(''status'', JStr ''completed''), (''isRecurring'', JBool False)]"

text \<open>
  \<open>updateTransaction\<close>. \<open>errs\<close> is \<open>validationResult(req)\<close>, the verdict of the route's
  express-validator chain on the request; \<open>body\<close> is \<open>req.body\<close>; \<open>ops\<close> is the
  database's reading of the update operators (see \<open>applyUpdate\<close>).
\<close>

definition updateFields :: "doc \<Rightarrow> doc" where
  "updateFields body = AList.delete ''approvedBy'' (AList.delete ''createdBy'' body)"

definition updateTransaction ::
  "(doc \<Rightarrow> doc \<Rightarrow> doc option) \<Rightarrow> schema \<Rightarrow> string list \<Rightarrow> actor \<Rightarrow> oid \<Rightarrow> doc \<Rightarrow> collection
   \<Rightarrow> doc reply \<times> collection" where
  "updateTransaction ops sch errs u i body coll =
     (if errs \<noteq> [] then (Fail 400 ''Validation failed'', coll)
      else case map_of coll i of
        None \<Rightarrow> (Fail 404 ''Transaction not found'', coll)
      | Some t \<Rightarrow>
          if map_of t ''status'' = Some (JStr ''approved'') \<and> role u \<noteq> Admin
          then (Fail 403 ''Cannot modify approved transactions'', coll)
          else (case applyUpdate ops sch (updateFields body) t of
                  None \<Rightarrow> (Fail 500 ''Server error while updating transaction'', coll)
                | Some t' \<Rightarrow> (Ok t', AList.update i t' coll)))"

text \<open>
  The route \<open>PUT /api/finance/:id\<close> (routes/finance.js): \<open>financeAccess\<close> in front of the handler.
\<close>

definition putFinance ::
  "(doc \<Rightarrow> doc \<Rightarrow> doc option) \<Rightarrow> schema \<Rightarrow> string list \<Rightarrow> actor \<Rightarrow> oid \<Rightarrow> doc \<Rightarrow> collection
   \<Rightarrow> doc reply \<times> collection" where
  "putFinance ops sch errs u i body coll =
     (if role u \<noteq> Finance \<and> role u \<noteq> Admin
      then (Fail 403 ''Finance Manager or Admin access required'', coll)
      else updateTransaction ops sch errs u i body coll)"

section \<open>Children (src/backend/controllers/childController.js, src/backend/models/Child.js)\<close>

text \<open>
  Modelled from the spec: models/User.js is not among the sources. A user document has
  the fields that middleware/auth.js and the child controller use: the role, the active
  flag and the child-set (\<open>children\<close>).
\<close>

record user =
  urole :: role
  isActive :: bool
  children :: "oid list"

record store =
  users :: "(oid \<times> user) list"
  childDocs :: collection

text \<open>
  The schema of models/Child.js. The two regular expressions of the emergency contacts
  are kept as their source texts; \<open>rx\<close> is the regular-expression engine (\<open>rx p s\<close> says
  that the pattern \<open>p\<close> matches the string \<open>s\<close>).
\<close>

definition backslash :: char where
  "backslash = CHR 0x5C"

definition phonePattern :: string where
  "phonePattern = ''^'' @ backslash # ''+?['' @ backslash # ''d'' @ backslash # ''s-()]+$''"

definition emailPattern :: string where
  "emailPattern =
     ''^'' @ backslash # ''w+([.-]?'' @ backslash # ''w+)*@'' @ backslash # ''w+([.-]?'' @
     backslash # ''w+)*('' @ backslash # ''.'' @ backslash # ''w{2,3})+$''"

definition emergencyContact :: "(string \<Rightarrow> string \<Rightarrow> bool) \<Rightarrow> pathSpec list" where
  "emergencyContact rx =
     [(''name'', castString plain, True),
      (''relationship'', castString plain, True),
      (''phone'', castString (plain\<lparr>s_match := Some (rx phonePattern)\<rparr>), True),
      (''email'', castString (plain\<lparr>s_match := Some (rx emailPattern)\<rparr>), False)]"

definition medication :: "pathSpec list" where
  "medication =
     [(''name'', castString plain, False), (''dosage'', castString plain, False),
      (''frequency'', castString plain, False), (''instructions'', castString plain, False)]"

definition medicalInfo :: "pathSpec list" where
  "medicalInfo =
     [(''allergies'', castArray (castString (plain\<lparr>s_trim := True\<rparr>)), False),
      (''medications'', castArray (castDoc medication), False),
      (''medicalConditions'', castArray (castString (plain\<lparr>s_trim := True\<rparr>)), False),
      (''doctorName'', castString plain, False),
      (''doctorPhone'', castString plain, False),
      (''insuranceProvider'', castString plain, False),
      (''insuranceNumber'', castString plain, False)]"

definition day :: "pathSpec list" where
  "day = [(''startTime'', castString plain, False), (''endTime'', castString plain, False),
          (''isActive'', castBoolean, False)]"

definition schedule :: "pathSpec list" where
  "schedule =
     [(''monday'', castDoc day, False), (''tuesday'', castDoc day, False),
      (''wednesday'', castDoc day, False), (''thursday'', castDoc day, False),
      (''friday'', castDoc day, False), (''saturday'', castDoc day, False),
      (''sunday'', castDoc day, False)]"

definition childFields :: "(string \<Rightarrow> string \<Rightarrow> bool) \<Rightarrow> pathSpec list" where
  "childFields rx =
     [(''firstName'', castString (plain\<lparr>s_trim := True, s_maxlength := Some 50\<rparr>), True),
      (''lastName'', castString (plain\<lparr>s_trim := True, s_maxlength := Some 50\<rparr>), True),
      (''dateOfBirth'', castDate, True),
      (''gender'', castString (plain\<lparr>s_enum := Some [''male'', ''female'', ''other'']\<rparr>), True),
      (''profileImage'', castString plain, False),
      (''parents'', castArray (castRequired True castObjectId), False),
      (''emergencyContacts'', castArray (castDoc (emergencyContact rx)), False),
      (''medicalInfo'', castDoc medicalInfo, False),
      (''enrollmentDate'', castDate, True),
      (''classroom'', castString plain, True),
      (''teacher'', castObjectId, True),
      (''schedule'', castDoc schedule, False),
      (''specialNeeds'', castString (plain\<lparr>s_trim := True\<rparr>), False),
      (''dietaryRestrictions'', castArray (castString (plain\<lparr>s_trim := True\<rparr>)), False),
      (''notes'', castString (plain\<lparr>s_trim := True, s_maxlength := Some 500\<rparr>), False),
      (''isActive'', castBoolean, False),
      (''monthlyFee'', castNumber (Some 0), True),
      (''feeStatus'', castString (plain\<lparr>s_enum := Some [''paid'', ''pending'', ''overdue'']\<rparr>), False)]"

text \<open>The defaults of a new child: the declared ones, the empty arrays and the nested objects.\<close>

definition dayDefault :: json where
  "dayDefault = JObj [(''isActive'', JBool False)]"

definition childDefaults :: doc where
  "childDefaults =
     [(''profileImage'', JStr []), (''parents'', JArr []), (''emergencyContacts'', JArr []),
      (''medicalInfo'', JObj [(''allergies'', JArr []), (''medications'', JArr []),
                            (''medicalConditions'', JArr [])]),
      (''schedule'', JObj [(''monday'', dayDefault), (''tuesday'', dayDefault),
                         (''wednesday'', dayDefault), (''thursday'', dayDefault),
                         (''friday'', dayDefault), (''saturday'', dayDefault),
                         (''sunday'', dayDefault)]),
      (''dietaryRestrictions'', JArr []), (''isActive'', JBool True),
      (''feeStatus'', JStr ''pending'')]"

definition childSchema :: "(string \<Rightarrow> string \<Rightarrow> bool) \<Rightarrow> schema" where
  "childSchema rx = mkSchema (childFields rx) childDefaults"

subsection \<open>getChildren\<close>

text \<open>
  A query filter is a list of conditions that must all hold: a field equal to a value (an
  array field matches when it holds the value), a field matching a regular expression
  with option \<open>i\<close>, or \<open>$or\<close> of conditions. The regular-expression engine is the
  argument \<open>rx\<close>: \<open>rx p s\<close> says that pattern \<open>p\<close> matches the string \<open>s\<close>.
\<close>

datatype cond = Eq string json | RegexI string string | Or "cond list"

fun matches :: "(string \<Rightarrow> string \<Rightarrow> bool) \<Rightarrow> doc \<Rightarrow> cond \<Rightarrow> bool" where
  "matches rx d (Eq f v) =
     (case map_of d f of
        Some (JArr xs) \<Rightarrow> v \<in> set xs \<or> v = JArr xs
      | Some w \<Rightarrow> w = v
      | None \<Rightarrow> v = JNull)"
| "matches rx d (RegexI f p) = (case map_of d f of Some (JStr s) \<Rightarrow> rx p s | _ \<Rightarrow> False)"
| "matches rx d (Or cs) = list_ex (matches rx d) cs"

definition findDocs :: "(string \<Rightarrow> string \<Rightarrow> bool) \<Rightarrow> cond list \<Rightarrow> collection \<Rightarrow> collection" where
  "findDocs rx conds coll = filter (\<lambda>kd. list_all (matches rx (snd kd)) conds) coll"

text \<open>
  The query string of \<open>GET /api/children\<close>: \<open>q_page\<close> and \<open>q_limit\<close> are the results of
  \<open>parseInt\<close> (\<open>None\<close> is \<open>NaN\<close>), the others the raw parameters (\<open>None\<close> is \<open>undefined\<close>).
\<close>

record childrenQuery =
  q_page :: "int option"
  q_limit :: "int option"
  q_classroom :: "string option"
  q_isActive :: "string option"
  q_search :: "string option"

definition orDefault :: "int option \<Rightarrow> int \<Rightarrow> int" where
  "orDefault p d = (case p of None \<Rightarrow> d | Some n \<Rightarrow> if n = 0 then d else n)"

definition childFilter :: "actor \<Rightarrow> childrenQuery \<Rightarrow> cond list" where
  "childFilter u q =
     (if role u = Parent then [Eq ''parents'' (JId (userId u))]
      else if role u = Teacher then [Eq ''teacher'' (JId (userId u))]
      else [])
     @ (case q_classroom q of None \<Rightarrow> [] | Some c \<Rightarrow> if c = [] then [] else [Eq ''classroom'' (JStr c)])
     @ (case q_isActive q of None \<Rightarrow> [] | Some a \<Rightarrow> [Eq ''isActive'' (JBool (a = ''true''))])
     @ (case q_search q of None \<Rightarrow> []
        | Some s \<Rightarrow> if s = [] then [] else [Or [RegexI ''firstName'' s, RegexI ''lastName'' s]])"

definition strOf :: "json option \<Rightarrow> string" where
  "strOf v = (case v of Some (JStr s) \<Rightarrow> s | _ \<Rightarrow> [])"

record childList =
  count :: nat
  total :: nat
  page :: int
  pages :: int
  data :: collection

text \<open>
  \<open>getChildren\<close> (the \<open>populate\<close> calls, which replace ids by the documents they name in
  the output, are left out).
\<close>

definition getChildren ::
  "(string \<Rightarrow> string \<Rightarrow> bool) \<Rightarrow> actor \<Rightarrow> childrenQuery \<Rightarrow> collection \<Rightarrow> childList reply" where
  "getChildren rx u q coll =
     (let pg = orDefault (q_page q) 1;
          limit = orDefault (q_limit q) 10;
          skip = (pg - 1) * limit;
          found = sort_key (\<lambda>kd. strOf (map_of (snd kd) ''firstName'')) (findDocs rx (childFilter u q) coll)
      in case paginate skip limit found of
           None \<Rightarrow> Fail 500 ''Server error''
         | Some cs \<Rightarrow>
             Ok \<lparr>count = length cs, total = length found, page = pg,
                 pages = - ((- int (length found)) div limit), data = cs\<rparr>)"

subsection \<open>createChild\<close>

text \<open>\<open>User.updateMany({_id: {$in: ps}}, {$addToSet: {children: c}})\<close>.\<close>

definition addToSet :: "oid \<Rightarrow> oid list \<Rightarrow> oid list" where
  "addToSet c xs = (if c \<in> set xs then xs else xs @ [c])"

definition linkParents :: "oid list \<Rightarrow> oid \<Rightarrow> (oid \<times> user) list \<Rightarrow> (oid \<times> user) list" where
  "linkParents ps c us =
     map (\<lambda>ku. if fst ku \<in> set ps then (fst ku, (snd ku)\<lparr>children := addToSet c (children (snd ku))\<rparr>)
                else ku) us"

text \<open>
  \<open>createChild\<close>: \<open>errs\<close> is \<open>validationResult(req)\<close>, \<open>newId\<close> the id the driver makes for
  the new document, \<open>now\<close> the clock. The reply carries the created child and its id.
\<close>

definition createChild ::
  "schema \<Rightarrow> time \<Rightarrow> oid \<Rightarrow> string list \<Rightarrow> doc \<Rightarrow> store \<Rightarrow> (oid \<times> doc) reply \<times> store" where
  "createChild sch now newId errs body st =
     (if errs \<noteq> [] then (Fail 400 ''Validation failed'', st)
      else
        (let childData =
               AList.update ''enrollmentDate''
                 (if truthy (map_of body ''enrollmentDate'') then the (map_of body ''enrollmentDate'')
                  else JDate now) body
         in case createDoc sch newId childData (childDocs st) of
              None \<Rightarrow> (Fail 500 ''Server error during child creation'', st)
            | Some (c, d) \<Rightarrow>
                (let ps = idsOf (map_of d ''parents'')
                 in (Ok (c, d),
                     st\<lparr>childDocs := childDocs st @ [(c, d)],
                        users := (if ps \<noteq> [] then linkParents ps c (users st) else users st)\<rparr>))))"

subsection \<open>updateChild\<close>

text \<open>
  The loop \<open>allowedFields.forEach(field => { if (req.body[field] !== undefined) ... })\<close>:
  the allowed fields that the body holds, with the body's values.
\<close>

definition pick :: "string list \<Rightarrow> doc \<Rightarrow> doc" where
  "pick allowedFields body =
     List.map_filter (\<lambda>f. map_option (Pair f) (map_of body f)) allowedFields"

definition teacherFields :: "string list" where
  "teacherFields = [''classroom'', ''schedule'', ''notes'', ''specialNeeds'', ''dietaryRestrictions'']"

definition parentFields :: "string list" where
  "parentFields = [''emergencyContacts'', ''medicalInfo'', ''dietaryRestrictions'', ''specialNeeds'']"

text \<open>
  \<open>updateChild\<close>; \<open>ops\<close> is the database's reading of the update operators (see
  \<open>applyUpdate\<close>), which only an admin's body can carry.
\<close>

definition updateChild ::
  "(doc \<Rightarrow> doc \<Rightarrow> doc option) \<Rightarrow> schema \<Rightarrow> actor \<Rightarrow> oid \<Rightarrow> doc \<Rightarrow> collection
   \<Rightarrow> doc reply \<times> collection" where
  "updateChild ops sch u i body coll =
     (case map_of coll i of
        None \<Rightarrow> (Fail 404 ''Child not found'', coll)
      | Some c \<Rightarrow>
          if role u = Parent \<and> \<not> includesId (map_of c ''parents'') (userId u)
          then (Fail 403 ''Access denied: You can only update your own children'', coll)
          else if role u = Teacher \<and> (map_of c ''teacher'' = None \<or> map_of c ''teacher'' = Some JNull)
          then (Fail 500 ''Server error during child update'', coll)
          else if role u = Teacher \<and> map_of c ''teacher'' \<noteq> Some (JId (userId u))
          then (Fail 403 ''Access denied: You can only update children in your class'', coll)
          else
            (let fieldsToUpdate =
                   (if role u = Admin then body
                    else if role u = Teacher then pick teacherFields body
                    else if role u = Parent then pick parentFields body
                    else [])
             in case applyUpdate ops sch fieldsToUpdate c of
                  None \<Rightarrow> (Fail 500 ''Server error during child update'', coll)
                | Some c' \<Rightarrow> (Ok c', AList.update i c' coll)))"

section \<open>Finance transactions: the report (the finance controller, src/unnamed/part_002)\<close>




text \<open>
  The accumulator \<open>$sum\<close>: the values added up from zero. \<open>$sum: '$amount'\<close> passes over
  the documents that have no amount.
\<close>

definition sumN :: "'n::{zero,plus} list \<Rightarrow> 'n" where
  "sumN xs = foldl (+) 0 xs"


text \<open>
  \<open>$group\<close>: one group for each key among the documents, with the documents of that key.
\<close>

definition groupDocs :: "('a \<Rightarrow> 'k) \<Rightarrow> 'a list \<Rightarrow> ('k \<times> 'a list) list" where
  "groupDocs key xs = map (\<lambda>k. (k, filter (\<lambda>x. key x = k) xs)) (remdups (map key xs))"

record 'n typeGroup =
  g_period :: "string option"
  g_type :: "string option"
  g_total :: 'n
  g_count :: nat

record 'n periodRow =
  period :: "string option"
  income :: 'n
  expenses :: 'n
  incomeCount :: nat
  expenseCount :: nat
  netIncome_p :: 'n





definition byPeriod :: "'n::{zero,plus,minus} typeGroup list \<Rightarrow> 'n periodRow list" where
  "byPeriod gs =
     map (\<lambda>pgs.
            (let i = sumN (map (\<lambda>g. if g_type g = Some ''income'' then g_total g else 0) (snd pgs));
                 e = sumN (map (\<lambda>g. if g_type g = Some ''expense'' then g_total g else 0) (snd pgs))
             in \<lparr>period = fst pgs, income = i, expenses = e,
                  incomeCount = sum_list (map (\<lambda>g. if g_type g = Some ''income'' then g_count g else 0) (snd pgs)),
                  expenseCount = sum_list (map (\<lambda>g. if g_type g = Some ''expense'' then g_count g else 0) (snd pgs)),
                  netIncome_p = i - e\<rparr>))
       (groupDocs g_period gs)"



subsection \<open>JavaScript numbers with integer values\<close>

text \<open>
  A \<open>Number\<close> is an IEEE 754 double. \<open>Dbl n\<close> is the double whose value is the integer
  \<open>n\<close>, for an \<open>n\<close> that a double can hold (every integer up to \<open>2 ^ 53\<close> in magnitude is
  one); \<open>rnd53\<close> rounds an integer to the nearest double (53 significant bits, ties to the
  even significand), so the sum and the difference of two such doubles are the rounded
  exact results. Magnitudes stay far below the overflow bound \<open>2 ^ 1024\<close> here.
\<close>

definition rnd53 :: "int \<Rightarrow> int" where
  "rnd53 n =
     (let u = 2 ^ nat (bitlen \<bar>n\<bar> - 53); q = n div u; r = n mod u
      in if 2 * r < u then q * u
         else if u < 2 * r then (q + 1) * u
         else if even q then q * u else (q + 1) * u)"

datatype dbl = Dbl (dval: int)

instantiation dbl :: "{zero, plus, minus, linorder}"
begin

definition zero_dbl :: dbl where
  "zero_dbl = Dbl 0"

definition plus_dbl :: "dbl \<Rightarrow> dbl \<Rightarrow> dbl" where
  "plus_dbl a b = Dbl (rnd53 (dval a + dval b))"

definition minus_dbl :: "dbl \<Rightarrow> dbl \<Rightarrow> dbl" where
  "minus_dbl a b = Dbl (rnd53 (dval a - dval b))"

definition less_eq_dbl :: "dbl \<Rightarrow> dbl \<Rightarrow> bool" where
  "less_eq_dbl a b = (dval a \<le> dval b)"

definition less_dbl :: "dbl \<Rightarrow> dbl \<Rightarrow> bool" where
  "less_dbl a b = (dval a < dval b)"

instance
  by standard (auto simp: less_eq_dbl_def less_dbl_def dbl.expand)

end



section \<open>Example data\<close>

definition msg0 :: message where
  "msg0 = \<lparr>mid = 7, sender = 1, recipient = 2, child = 5, isRead = False, readAt = None, createdAt = 100\<rparr>"

definition alice :: actor where "alice = \<lparr>userId = 1, role = Teacher\<rparr>"
definition bob :: actor where "bob = \<lparr>userId = 2, role = Parent\<rparr>"
definition carol :: actor where "carol = \<lparr>userId = 3, role = Parent\<rparr>"





definition kid1 :: doc where
  "kid1 = [(''firstName'', JStr ''Ann''), (''lastName'', JStr ''Lee''), (''parents'', JArr [JId 2]),
           (''teacher'', JId 1), (''classroom'', JStr ''A''), (''isActive'', JBool True),
           (''monthlyFee'', JNum 300), (''notes'', JStr ''shy'')]"

definition kid2 :: doc where
  "kid2 = [(''firstName'', JStr ''Ben''), (''lastName'', JStr ''Roy''), (''parents'', JArr [JId 3]),
           (''teacher'', JId 1), (''classroom'', JStr ''A''), (''isActive'', JBool True)]"

definition nursery :: collection where
  "nursery = [(10, kid1), (12, kid2)]"

definition classQuery :: childrenQuery where
  "classQuery = \<lparr>q_page = None, q_limit = None, q_classroom = Some ''A'',
                 q_isActive = Some ''true'', q_search = Some ''e''\<rparr>"

definition tx0 :: doc where
  "tx0 = [(''transactionType'', JStr ''income''), (''category'', JStr ''tuition_fees''),
          (''amount'', JNum 500), (''description'', JStr ''fee''), (''transactionDate'', JDate 1000),
          (''paymentMethod'', JStr ''cash''), (''status'', JStr ''pending''), (''createdBy'', JId 4)]"

definition tx1 :: doc where
  "tx1 = [(''amount'', JNum 500), (''status'', JStr ''approved''), (''createdBy'', JId 4),
          (''approvedBy'', JId 1), (''approvedAt'', JDate 2000)]"

definition ledger :: collection where
  "ledger = [(5, tx0), (6, tx1)]"

definition frank :: actor where "frank = \<lparr>userId = 4, role = Finance\<rparr>"

text \<open>
  A regular-expression engine, as far as the examples consult it: the phone pattern on
  strings of digits and dashes.
\<close>

definition exampleRx :: "string \<Rightarrow> string \<Rightarrow> bool" where
  "exampleRx p s = (p = phonePattern \<and> s \<noteq> [] \<and> list_all (\<lambda>c. c \<in> set ''0123456789-'') s)"

text \<open>
  Bodies of \<open>PUT /api/children/10\<close>: a parent's and a teacher's, each with every field of
  its role and two fields outside it, and a parent's whose emergency contact lacks the
  required \<open>relationship\<close> and \<open>phone\<close>.
\<close>

definition parentBody :: doc where
  "parentBody =
     [(''emergencyContacts'',
         JArr [JObj [(''name'', JStr ''Gran''), (''relationship'', JStr ''grandmother''),
                     (''phone'', JStr ''555-0100''), (''nickname'', JStr ''G'')]]),
      (''medicalInfo'', JObj [(''allergies'', JArr [JStr ''nuts'']), (''doctorName'', JStr ''Dr Who'')]),
      (''dietaryRestrictions'', JStr ''vegetarian''),
      (''specialNeeds'', JStr '' nap at noon ''),
      (''monthlyFee'', JNum 0), (''parents'', JArr [JId 2, JId 3])]"

definition badBody :: doc where
  "badBody = [(''emergencyContacts'', JArr [JObj [(''name'', JStr ''Gran'')]]),
              (''specialNeeds'', JStr ''nap at noon'')]"

definition teacherBody :: doc where
  "teacherBody =
     [(''classroom'', JStr ''B''),
      (''schedule'', JObj [(''monday'', JObj [(''startTime'', JStr ''08:00''), (''endTime'', JStr ''12:00''),
                                            (''isActive'', JBool True)])]),
      (''notes'', JStr ''settled ''),
      (''specialNeeds'', JStr ''glasses''),
      (''dietaryRestrictions'', JArr [JStr ''vegan'']),
      (''monthlyFee'', JNum 0), (''firstName'', JStr ''Zed'')]"

definition town :: store where
  "town = \<lparr>users = [(1, \<lparr>urole = Teacher, isActive = True, children = []\<rparr>),
                     (2, \<lparr>urole = Parent, isActive = True, children = [10]\<rparr>),
                     (3, \<lparr>urole = Parent, isActive = False, children = []\<rparr>)],
            childDocs = nursery\<rparr>"

text \<open>A user collection in which the parent 3 already lists the child id 20.\<close>

definition family :: "(oid \<times> user) list" where
  "family = [(3, \<lparr>urole = Parent, isActive = True, children = [20, 10]\<rparr>)]"

definition newKid :: doc where
  "newKid = [(''firstName'', JStr ''Cy''), (''lastName'', JStr ''Roy''), (''dateOfBirth'', JDate 500),
             (''gender'', JStr ''male''), (''parents'', JArr [JId 99, JId 1, JId 3]),
             (''teacher'', JId 1), (''classroom'', JStr ''A''), (''monthlyFee'', JNum 300)]"

definition cyStored :: doc where
  "cyStored =
     [(''profileImage'', JStr []), (''parents'', JArr [JId 99, JId 1, JId 3]),
      (''emergencyContacts'', JArr []),
      (''medicalInfo'', JObj [(''allergies'', JArr []), (''medications'', JArr []),
                            (''medicalConditions'', JArr [])]),
      (''schedule'', JObj [(''monday'', dayDefault), (''tuesday'', dayDefault),
                         (''wednesday'', dayDefault), (''thursday'', dayDefault),
                         (''friday'', dayDefault), (''saturday'', dayDefault),
                         (''sunday'', dayDefault)]),
      (''dietaryRestrictions'', JArr []), (''isActive'', JBool True),
      (''feeStatus'', JStr ''pending''), (''enrollmentDate'', JDate 7000),
      (''monthlyFee'', JNum 300), (''classroom'', JStr ''A''), (''teacher'', JId 1),
      (''gender'', JStr ''male''), (''dateOfBirth'', JDate 500), (''lastName'', JStr ''Roy''),
      (''firstName'', JStr ''Cy'')]"









section \<open>Lemmas on documents\<close>

lemma setOperations_plain:
  assumes "\<forall>kv \<in> set upd. \<not> isOperator (fst kv)"
  shows "setOperations upd = upd"
proof -
  have "map_of upd ''$set'' = None"
  proof (cases "map_of upd ''$set''")
    case (Some v)
    then have "(''$set'', v) \<in> set upd" by (rule map_of_SomeD)
    with assms show ?thesis by force
  qed simp
  moreover have "filter (\<lambda>kv. \<not> isOperator (fst kv)) upd = upd"
    using assms by (simp add: filter_id_conv)
  ultimately show ?thesis by (simp add: setOperations_def)
qed

text \<open>An update document without operators: every field on a path is cast and set.\<close>

lemma applyUpdate_plain:
  assumes "\<forall>kv \<in> set upd. \<not> isOperator (fst kv)"
  shows "applyUpdate ops sch upd d =
     (if \<forall>kv \<in> set upd. fst kv \<in> set (paths sch) \<longrightarrow> castPath sch (fst kv) (snd kv) \<noteq> None
      then Some (AList.merge d
             (map (\<lambda>kv. (fst kv, the (castPath sch (fst kv) (snd kv))))
                (filter (\<lambda>kv. fst kv \<in> set (paths sch)) upd)))
      else None)"
proof -
  from assms have "list_all (\<lambda>kv. fst kv = ''$set'' \<or> \<not> isOperator (fst kv)) upd"
    by (simp add: list_all_iff)
  moreover have "list_all (\<lambda>kc. snd kc \<noteq> None)
      (map (\<lambda>kv. (fst kv, castPath sch (fst kv) (snd kv)))
         (filter (\<lambda>kv. fst kv \<in> set (paths sch)) upd))
    = (\<forall>kv \<in> set upd. fst kv \<in> set (paths sch) \<longrightarrow> castPath sch (fst kv) (snd kv) \<noteq> None)"
    by (induction upd) auto
  ultimately show ?thesis
    by (simp add: applyUpdate_def setOperations_plain [OF assms] Let_def o_def)
qed

lemma map_of_cast_sets:
  "map_of (map (\<lambda>kv. (fst kv, the (castPath sch (fst kv) (snd kv))))
             (filter (\<lambda>kv. fst kv \<in> set (paths sch)) upd)) f =
     (if f \<in> set (paths sch) then map_option (\<lambda>v. the (castPath sch f v)) (map_of upd f) else None)"
  by (induction upd) auto

lemma if_then_holds: "(if P then A else B) \<Longrightarrow> P \<Longrightarrow> A"
  by simp

lemma if_else_holds: "(if P then A else B) \<Longrightarrow> \<not> P \<Longrightarrow> B"
  by simp

section \<open>Properties of the message controller\<close>

text \<open>
  C6. The claim: a second \<open>markRead\<close> by the recipient leaves \<open>readAt\<close> at the value the
  first call set. The handler assigns \<open>readAt = new Date()\<close> on every call: for the message
  \<open>msg0\<close>, marked read by its recipient at time 1000 and again at time 2000, the stored
  \<open>readAt\<close> is 1000 after the first call and 2000 after the second.
\<close>

theorem markAsRead_second_call_overwrites_readAt:
  "map readAt (snd (markAsRead 1000 bob 7 [msg0])) = [Some 1000] \<and>
   map readAt (snd (markAsRead 2000 bob 7 (snd (markAsRead 1000 bob 7 [msg0])))) = [Some 2000]"
  by (simp add: markAsRead_def findMessageById_def saveMessage_def preSave_def msg0_def bob_def)

text \<open>
  C7. The claim: every message read returns only messages whose sender or recipient is the
  requesting actor, the by-child listing included. \<open>carol\<close> is neither the sender nor the
  recipient of \<open>msg0\<close>; \<open>getMessageById\<close> answers her with the message and
  \<open>getMessagesByChild\<close> lists it for her. (The sibling \<open>getConversation\<close>, whose query has
  the sender-or-recipient condition, lists nothing for her.)
\<close>

theorem message_reads_are_not_scoped_to_the_actor:
  "sender msg0 \<noteq> userId carol \<and> recipient msg0 \<noteq> userId carol \<and>
   getMessageById 1000 carol 7 [msg0] = (Ok msg0, [msg0]) \<and>
   getMessagesByChild carol 5 1 20 [msg0] = Ok ([msg0], 1) \<and>
   getConversation carol 5 1 20 [msg0] = Ok ([], 0)"
  by (simp add: getMessageById_def getMessagesByChild_def getConversation_def
        findMessageById_def paginate_def msg0_def carol_def)

text \<open>Marking as read does succeed for the recipient only.\<close>

lemma markAsRead_only_recipient:
  "fst (markAsRead now u i ms) = Ok b \<Longrightarrow>
     \<exists>m. findMessageById i ms = Some m \<and> recipient m = userId u"
  by (auto simp: markAsRead_def split: option.splits if_splits)

text \<open>Every call by the recipient stores the time of that call as \<open>readAt\<close>, whatever the
  message held before: the controller assigns \<open>readAt\<close> before saving, so the hook's
  \<open>!this.readAt\<close> test never finds it empty.\<close>

lemma find_mid: "List.find (\<lambda>x. mid x = i) ms = Some m \<Longrightarrow> mid m = i"
proof (induction ms)
  case Nil
  then show ?case by simp
next
  case (Cons a ms)
  then show ?case by (cases "mid a = i") simp_all
qed

lemma preSave_mid: "mid (preSave now old m) = mid m"
  by (simp add: preSave_def)

lemma find_saveMessage:
  "findMessageById (mid m) ms = Some old \<Longrightarrow>
   findMessageById (mid m) (saveMessage now m ms) = Some (preSave now old m)"
proof (induction ms)
  case Nil
  then show ?case by (simp add: findMessageById_def)
next
  case (Cons a ms)
  show ?case
  proof (cases "mid a = mid m")
    case True
    with Cons.prems have "old = a" by (simp add: findMessageById_def)
    with True show ?thesis by (simp add: findMessageById_def saveMessage_def preSave_mid)
  next
    case False
    with Cons.prems have "findMessageById (mid m) ms = Some old" by (simp add: findMessageById_def)
    from Cons.IH [OF this] False show ?thesis
      by (simp add: findMessageById_def saveMessage_def)
  qed
qed

lemma markAsRead_stamps_every_call:
  assumes "findMessageById i ms = Some m" and "recipient m = userId u"
  shows "\<exists>m'. findMessageById i (snd (markAsRead now u i ms)) = Some m' \<and>
              isRead m' \<and> readAt m' = Some now"
proof -
  from assms(1) have i: "mid m = i" unfolding findMessageById_def by (rule find_mid)
  define m1 where "m1 = m\<lparr>isRead := True, readAt := Some now\<rparr>"
  have m1: "mid m1 = i" "isRead m1" "readAt m1 = Some now" by (simp_all add: m1_def i)
  have "findMessageById (mid m1) ms = Some m" using assms(1) m1(1) by simp
  from find_saveMessage [OF this, of now]
  have f: "findMessageById i (saveMessage now m1 ms) = Some (preSave now m m1)"
    unfolding m1(1) .
  have p: "isRead (preSave now m m1) \<and> readAt (preSave now m m1) = Some now"
    using m1 by (simp add: preSave_def)
  have s: "snd (markAsRead now u i ms) = saveMessage now m1 ms"
    using assms by (simp add: markAsRead_def m1_def)
  show ?thesis unfolding s f using p by blast
qed

section \<open>Properties of addParticipant\<close>




section \<open>Properties of updateTransaction\<close>

lemmas finance_casts =
  financeSchema_def mkSchema_def financeFields_def castPath_def castRequired_def
  castString_def checkString_def castObjectId_def plain_def present_def Let_def

text \<open>
  C3. For a stored transaction whose status is \<open>approved\<close> and an actor that is not an
  admin, \<open>updateTransaction\<close> leaves the collection as it was, whatever the body; so does
  the route. When the request passed the route's validation (\<open>errs = []\<close>), the reply is
  \<open>403 Cannot modify approved transactions\<close>.
\<close>

theorem updateTransaction_approved_immutable:
  assumes "map_of coll i = Some t" and "map_of t ''status'' = Some (JStr ''approved'')"
    and "role u \<noteq> Admin"
  shows "snd (updateTransaction ops sch errs u i body coll) = coll \<and>
         snd (putFinance ops sch errs u i body coll) = coll \<and>
         (errs = [] \<longrightarrow>
            fst (updateTransaction ops sch errs u i body coll) =
              Fail 403 ''Cannot modify approved transactions'')"
  using assms by (simp add: updateTransaction_def putFinance_def)

theorem updateTransaction_approved_immutable_witness:
  "\<forall>ops. map_of ledger 6 = Some tx1 \<and> map_of tx1 ''status'' = Some (JStr ''approved'') \<and>
   role frank \<noteq> Admin \<and>
   updateTransaction ops financeSchema [] frank 6 [(''amount'', JNum 1)] ledger =
     (Fail 403 ''Cannot modify approved transactions'', ledger)"
proof
  fix ops
  show "map_of ledger 6 = Some tx1 \<and> map_of tx1 ''status'' = Some (JStr ''approved'') \<and>
   role frank \<noteq> Admin \<and>
   updateTransaction ops financeSchema [] frank 6 [(''amount'', JNum 1)] ledger =
     (Fail 403 ''Cannot modify approved transactions'', ledger)"
    using updateTransaction_approved_immutable
      [of ledger 6 tx1 frank ops financeSchema "[]" "[(''amount'', JNum 1)]"]
    by (simp add: ledger_def tx1_def frank_def prod_eq_iff)
qed

text \<open>
  C9. The claim: a finance actor sets a pending transaction's status to \<open>approved\<close> through
  the update. The handler asks for the schema's validators (\<open>runValidators: true\<close>), and the
  \<open>status\<close> enum of the Finance model is \<open>pending, completed, cancelled, refunded\<close>: the
  update of the pending transaction \<open>tx0\<close> with \<open>{status: 'approved'}\<close> is answered \<open>500\<close>
  and nothing is written. (The controller compares with \<open>'approved'\<close>, \<open>approveTransaction\<close>
  writes \<open>'approved'\<close> and \<open>'rejected'\<close>, and the route's validator allows
  \<open>pending, approved, rejected\<close>.)
\<close>

theorem update_status_approved_rejected_by_schema:
  "\<forall>ops. map_of tx0 ''status'' = Some (JStr ''pending'') \<and>
   putFinance ops financeSchema [] frank 5 [(''status'', JStr ''approved'')] ledger =
     (Fail 500 ''Server error while updating transaction'', ledger)"
  by (simp add: putFinance_def updateTransaction_def updateFields_def applyUpdate_def
        setOperations_def finance_casts ledger_def tx0_def frank_def)

text \<open>
  C10. The claim: \<open>createdBy\<close> and \<open>approvedBy\<close> are unchanged after every update. The two
  \<open>delete\<close>s remove the top-level keys only: the body \<open>{$set: {createdBy: 99}}\<close> passes them
  as it is, and the update sets \<open>createdBy\<close> of \<open>tx0\<close> from 4 to 99.
\<close>

theorem update_set_operator_changes_createdBy:
  "\<forall>ops. updateFields [(''$set'', JObj [(''createdBy'', JId 99)])] =
     [(''$set'', JObj [(''createdBy'', JId 99)])] \<and>
   map_option (\<lambda>t. map_of t ''createdBy'') (map_of ledger 5) = Some (Some (JId 4)) \<and>
   map_option (\<lambda>t. map_of t ''createdBy'')
     (map_of (snd (putFinance ops financeSchema [] frank 5
                     [(''$set'', JObj [(''createdBy'', JId 99)])] ledger)) 5)
     = Some (Some (JId 99))"
  by (simp add: putFinance_def updateTransaction_def updateFields_def applyUpdate_def
        setOperations_def finance_casts ledger_def tx0_def frank_def AList.merge_def)

text \<open>
  What the handler does do. For a body whose keys are plain field names, \<open>createdBy\<close> and
  \<open>approvedBy\<close> of the stored transaction are the same after the update, whatever its
  outcome. And a status that the schema accepts is written as the schema casts it, for any
  actor that reaches the handler, with every other field (\<open>approvedBy\<close> and \<open>approvedAt\<close>
  among them) left as it was.
\<close>

lemma updateFields_no_creator:
  "map_of (updateFields body) ''createdBy'' = None \<and> map_of (updateFields body) ''approvedBy'' = None"
  by (simp add: updateFields_def delete_conv')

lemma updateFields_plain:
  "list_all (\<lambda>kv. \<not> isOperator (fst kv)) body \<Longrightarrow>
   \<forall>kv \<in> set (updateFields body). \<not> isOperator (fst kv)"
  by (auto simp: updateFields_def list_all_iff AList.delete_eq)

lemma updateTransaction_plain_body_keeps_creator:
  assumes "list_all (\<lambda>kv. \<not> isOperator (fst kv)) body"
    and "map_of coll i = Some t"
    and "map_of (snd (updateTransaction ops sch errs u i body coll)) i = Some t'"
  shows "map_of t' ''createdBy'' = map_of t ''createdBy'' \<and>
         map_of t' ''approvedBy'' = map_of t ''approvedBy''"
proof (cases "snd (updateTransaction ops sch errs u i body coll) = coll")
  case True
  with assms(2,3) show ?thesis by simp
next
  case False
  let ?sets = "map (\<lambda>kv. (fst kv, the (castPath sch (fst kv) (snd kv))))
                 (filter (\<lambda>kv. fst kv \<in> set (paths sch)) (updateFields body))"
  from False assms(2) have new: "snd (updateTransaction ops sch errs u i body coll) = AList.update i (AList.merge t ?sets) coll"
    by (auto simp: updateTransaction_def applyUpdate_plain [OF updateFields_plain [OF assms(1)]]
          split: if_splits option.splits)
  from new assms(3) have t': "t' = AList.merge t ?sets" by (simp add: update_conv')
  show ?thesis
    using updateFields_no_creator [of body]
    by (simp add: t' merge_conv' map_add_def map_of_cast_sets)
qed

lemma updateTransaction_applies_accepted_status:
  assumes "map_of coll i = Some t"
    and "map_of t ''status'' \<noteq> Some (JStr ''approved'') \<or> role u = Admin"
    and "''status'' \<in> set (paths sch)" and "castPath sch ''status'' v = Some w"
  shows "\<exists>t'. updateTransaction ops sch [] u i [(''status'', v)] coll = (Ok t', AList.update i t' coll) \<and>
              map_of t' ''status'' = Some w \<and>
              (\<forall>f. f \<noteq> ''status'' \<longrightarrow> map_of t' f = map_of t f)"
  using assms
  by (auto simp: updateTransaction_def updateFields_def applyUpdate_def setOperations_def update_conv')

section \<open>Properties of getChildren\<close>

lemma paginate_subset: "paginate s l xs = Some ys \<Longrightarrow> set ys \<subseteq> set xs"
  by (auto simp: paginate_def Let_def split: if_splits dest: in_set_takeD in_set_dropD)

lemma findDocs_sound:
  "kd \<in> set (findDocs rx conds coll) \<Longrightarrow> kd \<in> set coll \<and> list_all (matches rx (snd kd)) conds"
  by (simp add: findDocs_def)

lemma matches_parent:
  "matches rx d (Eq ''parents'' (JId i)) \<Longrightarrow> includesId (map_of d ''parents'') i"
  by (auto split: option.splits json.splits)

lemma childFilter_parent:
  "role u = Parent \<Longrightarrow> Eq ''parents'' (JId (userId u)) \<in> set (childFilter u q)"
  by (simp add: childFilter_def)

text \<open>
  C4. When the actor is a parent, every child that \<open>getChildren\<close> returns is a stored child
  whose \<open>parents\<close> hold the actor's id, whatever the query parameters (page, limit,
  classroom, isActive, search) and whatever the regular-expression engine answers.
\<close>

theorem getChildren_parent_scope:
  assumes "role u = Parent" and "getChildren rx u q coll = Ok r"
  shows "\<forall>kd \<in> set (data r). kd \<in> set coll \<and> includesId (map_of (snd kd) ''parents'') (userId u)"
proof
  fix kd assume kd: "kd \<in> set (data r)"
  let ?found = "sort_key (\<lambda>kd. strOf (map_of (snd kd) ''firstName''))
                  (findDocs rx (childFilter u q) coll)"
  from assms(2) obtain cs where
    pg: "paginate ((orDefault (q_page q) 1 - 1) * orDefault (q_limit q) 10)
           (orDefault (q_limit q) 10) ?found = Some cs"
    and r: "data r = cs"
    by (auto simp: getChildren_def Let_def split: option.splits)
  from kd r paginate_subset [OF pg] have "kd \<in> set ?found" by auto
  then have "kd \<in> set (findDocs rx (childFilter u q) coll)" by simp
  then have in_coll: "kd \<in> set coll" and all: "list_all (matches rx (snd kd)) (childFilter u q)"
    using findDocs_sound by blast+
  from all childFilter_parent [OF assms(1)]
  have "matches rx (snd kd) (Eq ''parents'' (JId (userId u)))"
    unfolding list_all_iff by blast
  then show "kd \<in> set coll \<and> includesId (map_of (snd kd) ''parents'') (userId u)"
    using in_coll matches_parent by blast
qed

lemma getChildren_bob:
  "getChildren (\<lambda>p s. p = ''e'' \<and> CHR ''e'' \<in> set s) bob classQuery nursery =
     Ok \<lparr>count = 1, total = 1, page = 1, pages = 1, data = [(10, kid1)]\<rparr>"
  by (simp add: getChildren_def orDefault_def childFilter_def findDocs_def paginate_def
        nursery_def kid1_def kid2_def bob_def classQuery_def strOf_def)

theorem getChildren_parent_scope_witness:
  "role bob = Parent \<and>
   getChildren (\<lambda>p s. p = ''e'' \<and> CHR ''e'' \<in> set s) bob classQuery nursery =
     Ok \<lparr>count = 1, total = 1, page = 1, pages = 1, data = [(10, kid1)]\<rparr> \<and>
   (10, kid1) \<in> set nursery \<and> includesId (map_of kid1 ''parents'') (userId bob)"
proof -
  have a: "role bob = Parent" by (simp add: bob_def)
  from getChildren_parent_scope [OF a getChildren_bob]
  have "(10, kid1) \<in> set nursery \<and> includesId (map_of kid1 ''parents'') (userId bob)" by simp
  with a getChildren_bob show ?thesis by simp
qed

section \<open>Properties of updateChild\<close>

lemma map_of_pick: "map_of (pick F body) f = (if f \<in> set F then map_of body f else None)"
  by (induction F) (auto simp: pick_def split: option.splits)

lemma pick_cong:
  "(\<forall>f \<in> set F. map_of body' f = map_of body f) \<Longrightarrow> pick F body' = pick F body"
  by (induction F) (simp_all add: pick_def split: option.splits)

lemma pick_keys: "kv \<in> set (pick F body) \<Longrightarrow> fst kv \<in> set F \<and> map_of body (fst kv) = Some (snd kv)"
  by (induction F) (auto simp: pick_def split: option.splits)

lemma pick_complete: "f \<in> set F \<Longrightarrow> map_of body f = Some v \<Longrightarrow> (f, v) \<in> set (pick F body)"
  by (induction F) (auto simp: pick_def split: option.splits)

lemma applyUpdate_pick:
  assumes "\<forall>f \<in> set F. \<not> isOperator f"
  shows "applyUpdate ops sch (pick F body) c =
     (if \<forall>f \<in> set F. \<forall>v. map_of body f = Some v \<and> f \<in> set (paths sch) \<longrightarrow> castPath sch f v \<noteq> None
      then Some (AList.merge c
             (map (\<lambda>kv. (fst kv, the (castPath sch (fst kv) (snd kv))))
                (filter (\<lambda>kv. fst kv \<in> set (paths sch)) (pick F body))))
      else None)"
proof -
  have plain: "\<forall>kv \<in> set (pick F body). \<not> isOperator (fst kv)"
    using assms pick_keys by blast
  have "(\<forall>kv \<in> set (pick F body). fst kv \<in> set (paths sch) \<longrightarrow> castPath sch (fst kv) (snd kv) \<noteq> None)
      = (\<forall>f \<in> set F. \<forall>v. map_of body f = Some v \<and> f \<in> set (paths sch) \<longrightarrow> castPath sch f v \<noteq> None)"
    (is "?L = ?R")
  proof
    assume l: ?L
    show ?R
    proof (intro ballI allI impI)
      fix f v assume "f \<in> set F" and "map_of body f = Some v \<and> f \<in> set (paths sch)"
      with pick_complete [of f F body v] l show "castPath sch f v \<noteq> None" by force
    qed
  next
    assume r: ?R
    show ?L
    proof (intro ballI impI)
      fix kv assume "kv \<in> set (pick F body)" and "fst kv \<in> set (paths sch)"
      with pick_keys [of kv F body] r show "castPath sch (fst kv) (snd kv) \<noteq> None" by blast
    qed
  qed
  then show ?thesis by (simp only: applyUpdate_plain [OF plain])
qed

lemma map_of_merged_pick:
  "map_of (AList.merge c
             (map (\<lambda>kv. (fst kv, the (castPath sch (fst kv) (snd kv))))
                (filter (\<lambda>kv. fst kv \<in> set (paths sch)) (pick F body)))) f =
     (case (if f \<in> set F then map_of body f else None) of
        None \<Rightarrow> map_of c f
      | Some v \<Rightarrow> if f \<in> set (paths sch) then Some (the (castPath sch f v)) else map_of c f)"
  by (simp add: merge_conv' map_add_def map_of_cast_sets map_of_pick split: option.splits)

lemmas child_casts =
  childSchema_def mkSchema_def childFields_def castPath_def castRequired_def castArray_def
  castDoc_def castString_def checkString_def castBoolean_def plain_def present_def
  emergencyContact_def medicalInfo_def medication_def schedule_def day_def exampleRx_def
  trim_def isSpace_def map_filter_simps Let_def

text \<open>
  C8. Let \<open>c\<close> be the stored child, and let the actor be a parent, with \<open>F\<close> the fields
  \<open>emergencyContacts, medicalInfo, dietaryRestrictions, specialNeeds\<close>, or a teacher, with
  \<open>F\<close> the fields \<open>classroom, schedule, notes, specialNeeds, dietaryRestrictions\<close>. Then,
  for every schema: the answer of \<open>updateChild\<close> and the collection afterwards are the same
  for any two bodies that agree on the fields of \<open>F\<close> (a field outside \<open>F\<close> is dropped
  without an error), whatever the database makes of update operators; whatever the
  outcome, the stored child has its prior value at every field outside \<open>F\<close>, and no other
  child changes. When the actor is a parent of \<open>c\<close> or the teacher of \<open>c\<close>: if the schema
  accepts the value that the body gives for each field of \<open>F\<close>, the update succeeds and the
  stored child holds at each field of \<open>F\<close> what the schema's cast makes of the body's
  value (its prior value when the body has none); if the schema refuses one of them, the
  answer is \<open>500\<close> and the collection is unchanged. When the actor is neither, the update
  is refused and the collection is unchanged.
\<close>

theorem updateChild_allowed_fields:
  assumes "map_of coll i = Some c"
    and "role u = Parent \<and>
           F = [''emergencyContacts'', ''medicalInfo'', ''dietaryRestrictions'', ''specialNeeds''] \<or>
         role u = Teacher \<and>
           F = [''classroom'', ''schedule'', ''notes'', ''specialNeeds'', ''dietaryRestrictions'']"
  shows "(\<forall>body' ops'. (\<forall>f \<in> set F. map_of body' f = map_of body f) \<longrightarrow>
            updateChild ops' sch u i body' coll = updateChild ops sch u i body coll) \<and>
         (\<forall>c' f. map_of (snd (updateChild ops sch u i body coll)) i = Some c' \<and> f \<notin> set F \<longrightarrow>
            map_of c' f = map_of c f) \<and>
         (\<forall>j. j \<noteq> i \<longrightarrow> map_of (snd (updateChild ops sch u i body coll)) j = map_of coll j) \<and>
         (role u = Parent \<and> includesId (map_of c ''parents'') (userId u) \<or>
          role u = Teacher \<and> map_of c ''teacher'' = Some (JId (userId u)) \<longrightarrow>
            (if \<forall>f \<in> set F. \<forall>v. map_of body f = Some v \<and> f \<in> set (paths sch) \<longrightarrow>
                   castPath sch f v \<noteq> None
             then \<exists>c'. updateChild ops sch u i body coll = (Ok c', AList.update i c' coll) \<and>
                    (\<forall>f \<in> set F. map_of c' f =
                       (case map_of body f of
                          None \<Rightarrow> map_of c f
                        | Some v \<Rightarrow> if f \<in> set (paths sch) then castPath sch f v else map_of c f))
             else updateChild ops sch u i body coll =
                    (Fail 500 ''Server error during child update'', coll))) \<and>
         (\<not> (role u = Parent \<and> includesId (map_of c ''parents'') (userId u) \<or>
             role u = Teacher \<and> map_of c ''teacher'' = Some (JId (userId u))) \<longrightarrow>
            snd (updateChild ops sch u i body coll) = coll \<and>
            \<not> succeeded (fst (updateChild ops sch u i body coll)))"
proof (cases "role u = Parent \<and> includesId (map_of c ''parents'') (userId u) \<or>
              role u = Teacher \<and> map_of c ''teacher'' = Some (JId (userId u))")
  case False
  have "\<exists>code msg. \<forall>b o'. updateChild o' sch u i b coll = (Fail code msg, coll)"
  proof (cases "role u = Parent")
    case True
    with False have "\<not> includesId (map_of c ''parents'') (userId u)" by simp
    with True assms(1) have "\<forall>b o'. updateChild o' sch u i b coll =
        (Fail 403 ''Access denied: You can only update your own children'', coll)"
      by (simp add: updateChild_def)
    then show ?thesis by blast
  next
    case np: False
    with assms(2) have t: "role u = Teacher" by auto
    with False have nt: "map_of c ''teacher'' \<noteq> Some (JId (userId u))" by simp
    show ?thesis
    proof (cases "map_of c ''teacher'' = None \<or> map_of c ''teacher'' = Some JNull")
      case True
      with t assms(1) have "\<forall>b o'. updateChild o' sch u i b coll =
          (Fail 500 ''Server error during child update'', coll)"
        by (simp add: updateChild_def)
      then show ?thesis by blast
    next
      case False
      with t nt assms(1) have "\<forall>b o'. updateChild o' sch u i b coll =
          (Fail 403 ''Access denied: You can only update children in your class'', coll)"
        by (simp add: updateChild_def)
      then show ?thesis by blast
    qed
  qed
  then obtain code msg where fail: "\<And>b o'. updateChild o' sch u i b coll = (Fail code msg, coll)"
    by blast
  have drop: "\<forall>body' ops'. (\<forall>f \<in> set F. map_of body' f = map_of body f) \<longrightarrow>
            updateChild ops' sch u i body' coll = updateChild ops sch u i body coll"
    by (simp add: fail)
  have frame: "\<forall>c' f. map_of (snd (updateChild ops sch u i body coll)) i = Some c' \<and> f \<notin> set F \<longrightarrow>
            map_of c' f = map_of c f"
    using assms(1) by (simp add: fail)
  have others: "\<forall>j. j \<noteq> i \<longrightarrow> map_of (snd (updateChild ops sch u i body coll)) j = map_of coll j"
    by (simp add: fail)
  have refused: "snd (updateChild ops sch u i body coll) = coll \<and>
            \<not> succeeded (fst (updateChild ops sch u i body coll))"
    by (simp add: fail succeeded_def)
  show ?thesis
  proof (intro conjI)
    show "\<forall>body' ops'. (\<forall>f \<in> set F. map_of body' f = map_of body f) \<longrightarrow>
            updateChild ops' sch u i body' coll = updateChild ops sch u i body coll"
      by (rule drop)
    show "\<forall>c' f. map_of (snd (updateChild ops sch u i body coll)) i = Some c' \<and> f \<notin> set F \<longrightarrow>
            map_of c' f = map_of c f"
      by (rule frame)
    show "\<forall>j. j \<noteq> i \<longrightarrow> map_of (snd (updateChild ops sch u i body coll)) j = map_of coll j"
      by (rule others)
    show "role u = Parent \<and> includesId (map_of c ''parents'') (userId u) \<or>
          role u = Teacher \<and> map_of c ''teacher'' = Some (JId (userId u)) \<longrightarrow>
            (if \<forall>f \<in> set F. \<forall>v. map_of body f = Some v \<and> f \<in> set (paths sch) \<longrightarrow>
                   castPath sch f v \<noteq> None
             then \<exists>c'. updateChild ops sch u i body coll = (Ok c', AList.update i c' coll) \<and>
                    (\<forall>f \<in> set F. map_of c' f =
                       (case map_of body f of
                          None \<Rightarrow> map_of c f
                        | Some v \<Rightarrow> if f \<in> set (paths sch) then castPath sch f v else map_of c f))
             else updateChild ops sch u i body coll =
                    (Fail 500 ''Server error during child update'', coll))"
    proof
      assume "role u = Parent \<and> includesId (map_of c ''parents'') (userId u) \<or>
          role u = Teacher \<and> map_of c ''teacher'' = Some (JId (userId u))"
      with False show "if \<forall>f \<in> set F. \<forall>v. map_of body f = Some v \<and> f \<in> set (paths sch) \<longrightarrow>
                   castPath sch f v \<noteq> None
             then \<exists>c'. updateChild ops sch u i body coll = (Ok c', AList.update i c' coll) \<and>
                    (\<forall>f \<in> set F. map_of c' f =
                       (case map_of body f of
                          None \<Rightarrow> map_of c f
                        | Some v \<Rightarrow> if f \<in> set (paths sch) then castPath sch f v else map_of c f))
             else updateChild ops sch u i body coll =
                    (Fail 500 ''Server error during child update'', coll)"
        by (rule notE)
    qed
    show "\<not> (role u = Parent \<and> includesId (map_of c ''parents'') (userId u) \<or>
             role u = Teacher \<and> map_of c ''teacher'' = Some (JId (userId u))) \<longrightarrow>
            snd (updateChild ops sch u i body coll) = coll \<and>
            \<not> succeeded (fst (updateChild ops sch u i body coll))"
      using refused by (rule impI)
  qed
next
  case owner: True
  with assms(2) have own: "role u = Parent \<and>
           F = [''emergencyContacts'', ''medicalInfo'', ''dietaryRestrictions'', ''specialNeeds''] \<and>
           includesId (map_of c ''parents'') (userId u) \<or>
         role u = Teacher \<and>
           F = [''classroom'', ''schedule'', ''notes'', ''specialNeeds'', ''dietaryRestrictions''] \<and>
           map_of c ''teacher'' = Some (JId (userId u))"
    by auto
  have plain: "\<forall>f \<in> set F. \<not> isOperator f" using assms(2) by auto
  have upd: "\<And>b o'. updateChild o' sch u i b coll =
      (case applyUpdate o' sch (pick F b) c of
         None \<Rightarrow> (Fail 500 ''Server error during child update'', coll)
       | Some c' \<Rightarrow> (Ok c', AList.update i c' coll))"
    using assms(1) own by (auto simp: updateChild_def teacherFields_def parentFields_def)
  define ok where "ok \<longleftrightarrow>
    (\<forall>f \<in> set F. \<forall>v. map_of body f = Some v \<and> f \<in> set (paths sch) \<longrightarrow> castPath sch f v \<noteq> None)"
  let ?c' = "AList.merge c
             (map (\<lambda>kv. (fst kv, the (castPath sch (fst kv) (snd kv))))
                (filter (\<lambda>kv. fst kv \<in> set (paths sch)) (pick F body)))"
  have res: "\<And>o'. updateChild o' sch u i body coll =
      (if ok then (Ok ?c', AList.update i ?c' coll)
       else (Fail 500 ''Server error during child update'', coll))"
    unfolding ok_def by (simp add: upd applyUpdate_pick [OF plain])
  have drop: "\<forall>body' ops'. (\<forall>f \<in> set F. map_of body' f = map_of body f) \<longrightarrow>
            updateChild ops' sch u i body' coll = updateChild ops sch u i body coll"
  proof (intro allI impI)
    fix body' ops' assume "\<forall>f \<in> set F. map_of body' f = map_of body f"
    then have "pick F body' = pick F body" by (rule pick_cong)
    then have "updateChild ops' sch u i body' coll = updateChild ops' sch u i body coll"
      by (simp add: upd)
    also have "\<dots> = updateChild ops sch u i body coll" by (simp only: res)
    finally show "updateChild ops' sch u i body' coll = updateChild ops sch u i body coll" .
  qed
  have frame: "\<forall>c' f. map_of (snd (updateChild ops sch u i body coll)) i = Some c' \<and> f \<notin> set F \<longrightarrow>
            map_of c' f = map_of c f"
  proof (intro allI impI)
    fix c' f
    assume a: "map_of (snd (updateChild ops sch u i body coll)) i = Some c' \<and> f \<notin> set F"
    show "map_of c' f = map_of c f"
    proof (cases ok)
      case True
      then have "snd (updateChild ops sch u i body coll) = AList.update i ?c' coll"
        by (simp add: res)
      with a have "c' = ?c'" by (simp add: update_conv')
      with a show ?thesis by (simp only: map_of_merged_pick) simp
    next
      case False
      then have "snd (updateChild ops sch u i body coll) = coll"
        by (simp add: res)
      with a assms(1) show ?thesis by simp
    qed
  qed
  have others: "\<forall>j. j \<noteq> i \<longrightarrow> map_of (snd (updateChild ops sch u i body coll)) j = map_of coll j"
  proof (cases ok)
    case True
    then have "snd (updateChild ops sch u i body coll) = AList.update i ?c' coll"
      by (simp add: res)
    then show ?thesis by (simp add: update_conv')
  next
    case False
    then have "snd (updateChild ops sch u i body coll) = coll"
      by (simp add: res)
    then show ?thesis by simp
  qed
  let ?A = "\<exists>c'. updateChild ops sch u i body coll = (Ok c', AList.update i c' coll) \<and>
                 (\<forall>f \<in> set F. map_of c' f =
                    (case map_of body f of
                       None \<Rightarrow> map_of c f
                     | Some v \<Rightarrow> if f \<in> set (paths sch) then castPath sch f v else map_of c f))"
  let ?B = "updateChild ops sch u i body coll = (Fail 500 ''Server error during child update'', coll)"
  have "if ok then ?A else ?B"
  proof (cases ok)
    case True
    then have r: "updateChild ops sch u i body coll = (Ok ?c', AList.update i ?c' coll)"
      by (simp add: res)
    have "\<forall>f \<in> set F. map_of ?c' f =
                    (case map_of body f of
                       None \<Rightarrow> map_of c f
                     | Some v \<Rightarrow> if f \<in> set (paths sch) then castPath sch f v else map_of c f)"
    proof
      fix f assume f: "f \<in> set F"
      show "map_of ?c' f =
                    (case map_of body f of
                       None \<Rightarrow> map_of c f
                     | Some v \<Rightarrow> if f \<in> set (paths sch) then castPath sch f v else map_of c f)"
      proof (cases "map_of body f")
        case None
        with f show ?thesis by (simp only: map_of_merged_pick) simp
      next
        case (Some v)
        show ?thesis
        proof (cases "f \<in> set (paths sch)")
          case True
          with \<open>ok\<close> f Some have "castPath sch f v \<noteq> None" unfolding ok_def by blast
          with f Some True show ?thesis by (simp only: map_of_merged_pick) auto
        next
          case False
          with f Some show ?thesis by (simp only: map_of_merged_pick) simp
        qed
      qed
    qed
    with r have ?A by blast
    with True show ?thesis by (simp only: if_True)
  next
    case False
    then have ?B by (simp add: res)
    with False show ?thesis by (simp only: if_False)
  qed
  then have main: "if \<forall>f \<in> set F. \<forall>v. map_of body f = Some v \<and> f \<in> set (paths sch) \<longrightarrow> castPath sch f v \<noteq> None
      then ?A else ?B"
    unfolding ok_def .
  show ?thesis
  proof (intro conjI)
    show "\<forall>body' ops'. (\<forall>f \<in> set F. map_of body' f = map_of body f) \<longrightarrow>
            updateChild ops' sch u i body' coll = updateChild ops sch u i body coll"
      by (rule drop)
    show "\<forall>c' f. map_of (snd (updateChild ops sch u i body coll)) i = Some c' \<and> f \<notin> set F \<longrightarrow>
            map_of c' f = map_of c f"
      by (rule frame)
    show "\<forall>j. j \<noteq> i \<longrightarrow> map_of (snd (updateChild ops sch u i body coll)) j = map_of coll j"
      by (rule others)
    show "role u = Parent \<and> includesId (map_of c ''parents'') (userId u) \<or>
          role u = Teacher \<and> map_of c ''teacher'' = Some (JId (userId u)) \<longrightarrow>
            (if \<forall>f \<in> set F. \<forall>v. map_of body f = Some v \<and> f \<in> set (paths sch) \<longrightarrow>
                   castPath sch f v \<noteq> None
             then \<exists>c'. updateChild ops sch u i body coll = (Ok c', AList.update i c' coll) \<and>
                    (\<forall>f \<in> set F. map_of c' f =
                       (case map_of body f of
                          None \<Rightarrow> map_of c f
                        | Some v \<Rightarrow> if f \<in> set (paths sch) then castPath sch f v else map_of c f))
             else updateChild ops sch u i body coll =
                    (Fail 500 ''Server error during child update'', coll))"
      using main by (rule impI)
    show "\<not> (role u = Parent \<and> includesId (map_of c ''parents'') (userId u) \<or>
             role u = Teacher \<and> map_of c ''teacher'' = Some (JId (userId u))) \<longrightarrow>
            snd (updateChild ops sch u i body coll) = coll \<and>
            \<not> succeeded (fst (updateChild ops sch u i body coll))"
    proof
      assume "\<not> (role u = Parent \<and> includesId (map_of c ''parents'') (userId u) \<or>
             role u = Teacher \<and> map_of c ''teacher'' = Some (JId (userId u)))"
      from this owner show "snd (updateChild ops sch u i body coll) = coll \<and>
            \<not> succeeded (fst (updateChild ops sch u i body coll))"
        by (rule notE)
    qed
  qed
qed

theorem updateChild_allowed_fields_witness:
  "\<forall>ops.
   map_of nursery 10 = Some kid1 \<and>
   role bob = Parent \<and> includesId (map_of kid1 ''parents'') (userId bob) \<and>
   role alice = Teacher \<and> map_of kid1 ''teacher'' = Some (JId (userId alice)) \<and>
   (\<exists>c'. updateChild ops (childSchema exampleRx) bob 10 parentBody nursery
            = (Ok c', AList.update 10 c' nursery) \<and>
         map_of c' ''emergencyContacts'' =
           Some (JArr [JObj [(''name'', JStr ''Gran''), (''relationship'', JStr ''grandmother''),
                             (''phone'', JStr ''555-0100'')]]) \<and>
         map_of c' ''medicalInfo'' =
           Some (JObj [(''allergies'', JArr [JStr ''nuts'']), (''doctorName'', JStr ''Dr Who'')]) \<and>
         map_of c' ''dietaryRestrictions'' = Some (JArr [JStr ''vegetarian'']) \<and>
         map_of c' ''specialNeeds'' = Some (JStr ''nap at noon'') \<and>
         map_of c' ''monthlyFee'' = Some (JNum 300) \<and>
         map_of c' ''parents'' = Some (JArr [JId 2])) \<and>
   updateChild ops (childSchema exampleRx) bob 10 badBody nursery
     = (Fail 500 ''Server error during child update'', nursery) \<and>
   (\<exists>c'. updateChild ops (childSchema exampleRx) alice 10 teacherBody nursery
            = (Ok c', AList.update 10 c' nursery) \<and>
         map_of c' ''classroom'' = Some (JStr ''B'') \<and>
         map_of c' ''schedule'' =
           Some (JObj [(''monday'', JObj [(''startTime'', JStr ''08:00''), (''endTime'', JStr ''12:00''),
                                          (''isActive'', JBool True)])]) \<and>
         map_of c' ''notes'' = Some (JStr ''settled'') \<and>
         map_of c' ''specialNeeds'' = Some (JStr ''glasses'') \<and>
         map_of c' ''dietaryRestrictions'' = Some (JArr [JStr ''vegan'']) \<and>
         map_of c' ''monthlyFee'' = Some (JNum 300) \<and>
         map_of c' ''firstName'' = Some (JStr ''Ann'')) \<and>
   role carol = Parent \<and> \<not> includesId (map_of kid1 ''parents'') (userId carol) \<and>
   snd (updateChild ops (childSchema exampleRx) carol 10 parentBody nursery) = nursery \<and>
   \<not> succeeded (fst (updateChild ops (childSchema exampleRx) carol 10 parentBody nursery))"
proof
  fix ops
  let ?sch = "childSchema exampleRx"
  let ?P = "[''emergencyContacts'', ''medicalInfo'', ''dietaryRestrictions'', ''specialNeeds'']"
  let ?T = "[''classroom'', ''schedule'', ''notes'', ''specialNeeds'', ''dietaryRestrictions'']"
  have h: "map_of nursery 10 = Some kid1" by (simp add: nursery_def)
  have p: "role bob = Parent" "includesId (map_of kid1 ''parents'') (userId bob)"
    by (simp_all add: bob_def kid1_def)
  have t: "role alice = Teacher" "map_of kid1 ''teacher'' = Some (JId (userId alice))"
    by (simp_all add: alice_def kid1_def)
  have q: "role carol = Parent" "\<not> includesId (map_of kid1 ''parents'') (userId carol)"
    by (simp_all add: carol_def kid1_def)
  from p have pa: "role bob = Parent \<and> ?P = ?P \<or> role bob = Teacher \<and> ?P = ?T"
    and po: "role bob = Parent \<and> includesId (map_of kid1 ''parents'') (userId bob) \<or>
      role bob = Teacher \<and> map_of kid1 ''teacher'' = Some (JId (userId bob))"
    by simp_all
  from t have ta: "role alice = Parent \<and> ?T = ?P \<or> role alice = Teacher \<and> ?T = ?T"
    and to: "role alice = Parent \<and> includesId (map_of kid1 ''parents'') (userId alice) \<or>
      role alice = Teacher \<and> map_of kid1 ''teacher'' = Some (JId (userId alice))"
    by simp_all
  from q have qa: "role carol = Parent \<and> ?P = ?P \<or> role carol = Teacher \<and> ?P = ?T"
    and qo: "\<not> (role carol = Parent \<and> includesId (map_of kid1 ''parents'') (userId carol) \<or>
      role carol = Teacher \<and> map_of kid1 ''teacher'' = Some (JId (userId carol)))"
    by (simp_all add: carol_def)
  note par = updateChild_allowed_fields
    [where coll = nursery and i = 10 and c = kid1 and u = bob and F = ?P and sch = ?sch
       and ops = ops, OF h pa]
  note tea = updateChild_allowed_fields
    [where coll = nursery and i = 10 and c = kid1 and u = alice and F = ?T and sch = ?sch
       and ops = ops and body = teacherBody, OF h ta]
  note car = updateChild_allowed_fields
    [where coll = nursery and i = 10 and c = kid1 and u = carol and F = ?P and sch = ?sch
       and ops = ops and body = parentBody, OF h qa]
  have okp: "\<forall>f \<in> set ?P. \<forall>v. map_of parentBody f = Some v \<and> f \<in> set (paths ?sch) \<longrightarrow>
      castPath ?sch f v \<noteq> None"
    by (simp add: parentBody_def child_casts phonePattern_def)
  have bad: "\<not> (\<forall>f \<in> set ?P. \<forall>v. map_of badBody f = Some v \<and> f \<in> set (paths ?sch) \<longrightarrow>
      castPath ?sch f v \<noteq> None)"
    by (simp add: badBody_def child_casts)
  have okt: "\<forall>f \<in> set ?T. \<forall>v. map_of teacherBody f = Some v \<and> f \<in> set (paths ?sch) \<longrightarrow>
      castPath ?sch f v \<noteq> None"
    by (simp add: teacherBody_def child_casts)
  from if_then_holds [OF par [where body = parentBody, THEN conjunct2, THEN conjunct2, THEN conjunct2,
      THEN conjunct1, THEN mp, OF po] okp]
  obtain cp where
    rp: "updateChild ops ?sch bob 10 parentBody nursery = (Ok cp, AList.update 10 cp nursery)"
    and fp: "\<forall>f \<in> set ?P. map_of cp f =
                    (case map_of parentBody f of
                       None \<Rightarrow> map_of kid1 f
                     | Some v \<Rightarrow> if f \<in> set (paths ?sch) then castPath ?sch f v else map_of kid1 f)"
    by blast
  from rp have sp: "map_of (snd (updateChild ops ?sch bob 10 parentBody nursery)) 10 = Some cp"
    by (simp add: update_conv')
  from fp have vp:
    "map_of cp ''emergencyContacts'' =
       Some (JArr [JObj [(''name'', JStr ''Gran''), (''relationship'', JStr ''grandmother''),
                         (''phone'', JStr ''555-0100'')]])"
    "map_of cp ''medicalInfo'' =
       Some (JObj [(''allergies'', JArr [JStr ''nuts'']), (''doctorName'', JStr ''Dr Who'')])"
    "map_of cp ''dietaryRestrictions'' = Some (JArr [JStr ''vegetarian''])"
    "map_of cp ''specialNeeds'' = Some (JStr ''nap at noon'')"
    by (simp_all add: parentBody_def child_casts phonePattern_def)
  from par [where body = parentBody, THEN conjunct2, THEN conjunct1] sp
  have "map_of cp ''monthlyFee'' = map_of kid1 ''monthlyFee''"
    "map_of cp ''parents'' = map_of kid1 ''parents''"
    by simp_all
  then have up: "map_of cp ''monthlyFee'' = Some (JNum 300)" "map_of cp ''parents'' = Some (JArr [JId 2])"
    by (simp_all add: kid1_def)
  from if_else_holds [OF par [where body = badBody, THEN conjunct2, THEN conjunct2, THEN conjunct2,
      THEN conjunct1, THEN mp, OF po] bad]
  have rb: "updateChild ops ?sch bob 10 badBody nursery
     = (Fail 500 ''Server error during child update'', nursery)" .
  from if_then_holds [OF tea [THEN conjunct2, THEN conjunct2, THEN conjunct2, THEN conjunct1, THEN mp, OF to]
      okt]
  obtain ct where
    rt: "updateChild ops ?sch alice 10 teacherBody nursery = (Ok ct, AList.update 10 ct nursery)"
    and ft: "\<forall>f \<in> set ?T. map_of ct f =
                    (case map_of teacherBody f of
                       None \<Rightarrow> map_of kid1 f
                     | Some v \<Rightarrow> if f \<in> set (paths ?sch) then castPath ?sch f v else map_of kid1 f)"
    by blast
  from rt have st: "map_of (snd (updateChild ops ?sch alice 10 teacherBody nursery)) 10 = Some ct"
    by (simp add: update_conv')
  from ft have vt:
    "map_of ct ''classroom'' = Some (JStr ''B'')"
    "map_of ct ''schedule'' =
       Some (JObj [(''monday'', JObj [(''startTime'', JStr ''08:00''), (''endTime'', JStr ''12:00''),
                                      (''isActive'', JBool True)])])"
    "map_of ct ''notes'' = Some (JStr ''settled'')"
    "map_of ct ''specialNeeds'' = Some (JStr ''glasses'')"
    "map_of ct ''dietaryRestrictions'' = Some (JArr [JStr ''vegan''])"
    by (simp_all add: teacherBody_def child_casts)
  from tea [THEN conjunct2, THEN conjunct1] st
  have "map_of ct ''monthlyFee'' = map_of kid1 ''monthlyFee''"
    "map_of ct ''firstName'' = map_of kid1 ''firstName''"
    by simp_all
  then have ut: "map_of ct ''monthlyFee'' = Some (JNum 300)" "map_of ct ''firstName'' = Some (JStr ''Ann'')"
    by (simp_all add: kid1_def)
  from car [THEN conjunct2, THEN conjunct2, THEN conjunct2, THEN conjunct2, THEN mp, OF qo]
  have rc: "snd (updateChild ops ?sch carol 10 parentBody nursery) = nursery"
    "\<not> succeeded (fst (updateChild ops ?sch carol 10 parentBody nursery))"
    by simp_all
  from h p t rp vp up rb rt vt ut q rc
  show "map_of nursery 10 = Some kid1 \<and>
   role bob = Parent \<and> includesId (map_of kid1 ''parents'') (userId bob) \<and>
   role alice = Teacher \<and> map_of kid1 ''teacher'' = Some (JId (userId alice)) \<and>
   (\<exists>c'. updateChild ops (childSchema exampleRx) bob 10 parentBody nursery
            = (Ok c', AList.update 10 c' nursery) \<and>
         map_of c' ''emergencyContacts'' =
           Some (JArr [JObj [(''name'', JStr ''Gran''), (''relationship'', JStr ''grandmother''),
                             (''phone'', JStr ''555-0100'')]]) \<and>
         map_of c' ''medicalInfo'' =
           Some (JObj [(''allergies'', JArr [JStr ''nuts'']), (''doctorName'', JStr ''Dr Who'')]) \<and>
         map_of c' ''dietaryRestrictions'' = Some (JArr [JStr ''vegetarian'']) \<and>
         map_of c' ''specialNeeds'' = Some (JStr ''nap at noon'') \<and>
         map_of c' ''monthlyFee'' = Some (JNum 300) \<and>
         map_of c' ''parents'' = Some (JArr [JId 2])) \<and>
   updateChild ops (childSchema exampleRx) bob 10 badBody nursery
     = (Fail 500 ''Server error during child update'', nursery) \<and>
   (\<exists>c'. updateChild ops (childSchema exampleRx) alice 10 teacherBody nursery
            = (Ok c', AList.update 10 c' nursery) \<and>
         map_of c' ''classroom'' = Some (JStr ''B'') \<and>
         map_of c' ''schedule'' =
           Some (JObj [(''monday'', JObj [(''startTime'', JStr ''08:00''), (''endTime'', JStr ''12:00''),
                                          (''isActive'', JBool True)])]) \<and>
         map_of c' ''notes'' = Some (JStr ''settled'') \<and>
         map_of c' ''specialNeeds'' = Some (JStr ''glasses'') \<and>
         map_of c' ''dietaryRestrictions'' = Some (JArr [JStr ''vegan'']) \<and>
         map_of c' ''monthlyFee'' = Some (JNum 300) \<and>
         map_of c' ''firstName'' = Some (JStr ''Ann'')) \<and>
   role carol = Parent \<and> \<not> includesId (map_of kid1 ''parents'') (userId carol) \<and>
   snd (updateChild ops (childSchema exampleRx) carol 10 parentBody nursery) = nursery \<and>
   \<not> succeeded (fst (updateChild ops (childSchema exampleRx) carol 10 parentBody nursery))"
    by blast
qed

section \<open>Properties of createChild\<close>

lemma map_of_linkParents:
  "map_of (linkParents ps c us) k =
     map_option (\<lambda>u. if k \<in> set ps then u\<lparr>children := addToSet c (children u)\<rparr> else u)
       (map_of us k)"
  by (induction us) (auto simp: linkParents_def)

lemma linkParents_Nil: "linkParents [] c us = us"
  by (induction us) (auto simp: linkParents_def)

lemma createDoc_fresh: "createDoc sch newId input coll = Some (c, d) \<Longrightarrow> map_of coll c = None"
  by (auto simp: createDoc_def Let_def split: if_splits)

lemma createChild_town:
  "createChild (childSchema rx) 7000 20 [] newKid town =
     (Ok (20, cyStored),
      \<lparr>users = [(1, \<lparr>urole = Teacher, isActive = True, children = [20]\<rparr>),
                (2, \<lparr>urole = Parent, isActive = True, children = [10]\<rparr>),
                (3, \<lparr>urole = Parent, isActive = False, children = [20]\<rparr>)],
       childDocs = nursery @ [(20, cyStored)]\<rparr>)"
  by (simp add: createChild_def createDoc_def childSchema_def mkSchema_def childFields_def
        childDefaults_def castString_def checkString_def plain_def castDate_def castArray_def
        castRequired_def castObjectId_def castNumber_def checkNumber_def present_def trim_def
        isSpace_def linkParents_def addToSet_def town_def newKid_def nursery_def
        cyStored_def AList.merge_def)

text \<open>
  C1 as stated fails: \<open>createChild\<close> never looks the parents up. The body \<open>newKid\<close> names
  as parents the id 99, which no user has, the teacher 1 and the inactive parent 3; the
  request succeeds, the child is stored under the new id 20, and the users 1 and 3 get the
  child in their child-sets.
\<close>

theorem createChild_accepts_unresolved_parents:
  "\<forall>rx. map_of (users town) 99 = None \<and>
   map_option urole (map_of (users town) 1) = Some Teacher \<and>
   map_option isActive (map_of (users town) 3) = Some False \<and>
   idsOf (map_of newKid ''parents'') = [99, 1, 3] \<and>
   succeeded (fst (createChild (childSchema rx) 7000 20 [] newKid town)) \<and>
   map fst (childDocs (snd (createChild (childSchema rx) 7000 20 [] newKid town))) = [10, 12, 20] \<and>
   map (\<lambda>ku. (fst ku, children (snd ku)))
     (users (snd (createChild (childSchema rx) 7000 20 [] newKid town)))
     = [(1, [20]), (2, [10]), (3, [20])]"
  by (simp add: createChild_town succeeded_def) (simp add: town_def newKid_def nursery_def)

text \<open>
  C1, amended. The answer of \<open>createChild\<close> does not depend on the users that exist (it is
  the same with any other user collection \<open>us\<close>). When the operation fails (request
  validation, or the schema's validation in \<open>Child.create\<close>) the store is unchanged. When
  it succeeds with the child \<open>d\<close> under the id \<open>c\<close>, that id was free, the child is
  appended to the stored children, the users are the same ones in the same order, and
  every existing user keeps its role and active flag; its child-set is the former one with
  \<open>c\<close> appended, once, when the user's id is among the child's parents and the set did
  not hold \<open>c\<close> yet, and the former one otherwise.
\<close>

theorem createChild_links_existing_parents:
  "fst (createChild sch now newId errs body (st\<lparr>users := us\<rparr>)) =
     fst (createChild sch now newId errs body st) \<and>
   (\<forall>code msg. fst (createChild sch now newId errs body st) = Fail code msg \<longrightarrow>
       snd (createChild sch now newId errs body st) = st) \<and>
   (\<forall>c d. fst (createChild sch now newId errs body st) = Ok (c, d) \<longrightarrow>
       map_of (childDocs st) c = None \<and>
       childDocs (snd (createChild sch now newId errs body st)) = childDocs st @ [(c, d)] \<and>
       map fst (users (snd (createChild sch now newId errs body st))) = map fst (users st) \<and>
       (\<forall>k u. map_of (users st) k = Some u \<longrightarrow>
          (\<exists>u'. map_of (users (snd (createChild sch now newId errs body st))) k = Some u' \<and>
                urole u' = urole u \<and> isActive u' = isActive u \<and>
                children u' =
                  (if k \<in> set (idsOf (map_of d ''parents'')) \<and> c \<notin> set (children u)
                   then children u @ [c] else children u))))"
proof (intro conjI allI impI)
  show "fst (createChild sch now newId errs body (st\<lparr>users := us\<rparr>)) =
          fst (createChild sch now newId errs body st)"
    by (simp add: createChild_def Let_def split: option.splits)
next
  fix code msg assume "fst (createChild sch now newId errs body st) = Fail code msg"
  then show "snd (createChild sch now newId errs body st) = st"
    by (auto simp: createChild_def Let_def split: option.splits if_splits)
next
  fix c d assume ok: "fst (createChild sch now newId errs body st) = Ok (c, d)"
  let ?input = "AList.update ''enrollmentDate''
                 (if truthy (map_of body ''enrollmentDate'') then the (map_of body ''enrollmentDate'')
                  else JDate now) body"
  from ok have cd: "createDoc sch newId ?input (childDocs st) = Some (c, d)"
    by (auto simp: createChild_def Let_def split: option.splits if_splits)
  from ok have errs: "errs = []"
    by (auto simp: createChild_def Let_def split: option.splits if_splits)
  let ?ps = "idsOf (map_of d ''parents'')"
  have st': "snd (createChild sch now newId errs body st) =
      st\<lparr>childDocs := childDocs st @ [(c, d)], users := linkParents ?ps c (users st)\<rparr>"
    using cd errs by (simp add: createChild_def Let_def linkParents_Nil)
  show "map_of (childDocs st) c = None" using cd by (rule createDoc_fresh)
  show "childDocs (snd (createChild sch now newId errs body st)) = childDocs st @ [(c, d)]"
    by (simp add: st')
  show "map fst (users (snd (createChild sch now newId errs body st))) = map fst (users st)"
    by (simp add: st' linkParents_def)
  { fix k u assume "map_of (users st) k = Some u"
    then show "\<exists>u'. map_of (users (snd (createChild sch now newId errs body st))) k = Some u' \<and>
                urole u' = urole u \<and> isActive u' = isActive u \<and>
                children u' =
                  (if k \<in> set (idsOf (map_of d ''parents'')) \<and> c \<notin> set (children u)
                   then children u @ [c] else children u)"
      by (simp add: st' map_of_linkParents addToSet_def) }
qed

theorem createChild_links_existing_parents_witness:
  "fst (createChild (childSchema exampleRx) 7000 20 [] newKid town) = Ok (20, cyStored) \<and>
   fst (createChild (childSchema exampleRx) 7000 20 [] newKid (town\<lparr>users := family\<rparr>))
     = Ok (20, cyStored) \<and>
   idsOf (map_of cyStored ''parents'') = [99, 1, 3] \<and>
   map_of (users town) 3 = Some \<lparr>urole = Parent, isActive = False, children = []\<rparr> \<and>
   map_of (users town) 2 = Some \<lparr>urole = Parent, isActive = True, children = [10]\<rparr> \<and>
   map_of family 3 = Some \<lparr>urole = Parent, isActive = True, children = [20, 10]\<rparr> \<and>
   map_of (childDocs town) 20 = None \<and>
   childDocs (snd (createChild (childSchema exampleRx) 7000 20 [] newKid town))
     = childDocs town @ [(20, cyStored)] \<and>
   map fst (users (snd (createChild (childSchema exampleRx) 7000 20 [] newKid town))) = [1, 2, 3] \<and>
   (\<exists>u'. map_of (users (snd (createChild (childSchema exampleRx) 7000 20 [] newKid town))) 3
           = Some u' \<and> children u' = [20]) \<and>
   (\<exists>u'. map_of (users (snd (createChild (childSchema exampleRx) 7000 20 [] newKid town))) 2
           = Some u' \<and> children u' = [10]) \<and>
   (\<exists>u'. map_of (users (snd (createChild (childSchema exampleRx) 7000 20 [] newKid
                                  (town\<lparr>users := family\<rparr>)))) 3
           = Some u' \<and> children u' = [20, 10])"
proof -
  let ?sch = "childSchema exampleRx"
  note inst = createChild_links_existing_parents
    [where sch = ?sch and now = 7000 and newId = 20 and errs = "[]" and body = newKid and st = town
       and us = family]
  note inst2 = createChild_links_existing_parents
    [where sch = ?sch and now = 7000 and newId = 20 and errs = "[]" and body = newKid
       and st = "town\<lparr>users := family\<rparr>" and us = family]
  have r: "fst (createChild ?sch 7000 20 [] newKid town) = Ok (20, cyStored)"
    by (simp add: createChild_town)
  from inst r have r2: "fst (createChild ?sch 7000 20 [] newKid (town\<lparr>users := family\<rparr>)) = Ok (20, cyStored)"
    by simp
  have u3: "map_of (users town) 3 = Some \<lparr>urole = Parent, isActive = False, children = []\<rparr>"
    and u2: "map_of (users town) 2 = Some \<lparr>urole = Parent, isActive = True, children = [10]\<rparr>"
    and ids: "map fst (users town) = [1, 2, 3]"
    by (simp_all add: town_def)
  have f3: "map_of family 3 = Some \<lparr>urole = Parent, isActive = True, children = [20, 10]\<rparr>"
    by (simp add: family_def)
  then have f3': "map_of (users (town\<lparr>users := family\<rparr>)) 3 =
      Some \<lparr>urole = Parent, isActive = True, children = [20, 10]\<rparr>"
    by simp
  have ps: "idsOf (map_of cyStored ''parents'') = [99, 1, 3]" by (simp add: cyStored_def)
  from inst r have a: "map_of (childDocs town) 20 = None"
    and b: "childDocs (snd (createChild ?sch 7000 20 [] newKid town)) = childDocs town @ [(20, cyStored)]"
    and c: "map fst (users (snd (createChild ?sch 7000 20 [] newKid town))) = map fst (users town)"
    by blast+
  from inst r u3 have "\<exists>u'. map_of (users (snd (createChild ?sch 7000 20 [] newKid town))) 3 = Some u' \<and>
         children u' = (if 3 \<in> set (idsOf (map_of cyStored ''parents'')) \<and>
              20 \<notin> set (children \<lparr>urole = Parent, isActive = False, children = []\<rparr>)
            then children \<lparr>urole = Parent, isActive = False, children = []\<rparr> @ [20]
            else children \<lparr>urole = Parent, isActive = False, children = []\<rparr>)"
    by blast
  then have d: "\<exists>u'. map_of (users (snd (createChild ?sch 7000 20 [] newKid town))) 3 = Some u' \<and>
         children u' = [20]"
    by (simp add: ps)
  from inst r u2 have "\<exists>u'. map_of (users (snd (createChild ?sch 7000 20 [] newKid town))) 2 = Some u' \<and>
         children u' = (if 2 \<in> set (idsOf (map_of cyStored ''parents'')) \<and>
              20 \<notin> set (children \<lparr>urole = Parent, isActive = True, children = [10]\<rparr>)
            then children \<lparr>urole = Parent, isActive = True, children = [10]\<rparr> @ [20]
            else children \<lparr>urole = Parent, isActive = True, children = [10]\<rparr>)"
    by blast
  then have e: "\<exists>u'. map_of (users (snd (createChild ?sch 7000 20 [] newKid town))) 2 = Some u' \<and>
         children u' = [10]"
    by (simp add: ps)
  from inst2 r2 f3' have "\<exists>u'. map_of (users (snd (createChild ?sch 7000 20 [] newKid
                                  (town\<lparr>users := family\<rparr>)))) 3 = Some u' \<and>
         children u' = (if 3 \<in> set (idsOf (map_of cyStored ''parents'')) \<and>
              20 \<notin> set (children \<lparr>urole = Parent, isActive = True, children = [20, 10]\<rparr>)
            then children \<lparr>urole = Parent, isActive = True, children = [20, 10]\<rparr> @ [20]
            else children \<lparr>urole = Parent, isActive = True, children = [20, 10]\<rparr>)"
    by blast
  then have f: "\<exists>u'. map_of (users (snd (createChild ?sch 7000 20 [] newKid
                                  (town\<lparr>users := family\<rparr>)))) 3 = Some u' \<and>
         children u' = [20, 10]"
    by (simp add: ps)
  from r r2 ps u3 u2 f3 a b c d e f show ?thesis unfolding ids by blast
qed

section \<open>Properties of getFinancialReport\<close>






subsection \<open>Exact sums of doubles\<close>






















lemma byPeriod_net: "p \<in> set (byPeriod gs) \<Longrightarrow> netIncome_p p = income p - expenses p"
  by (auto simp: byPeriod_def Let_def)












end
